theory Spec2Isabelle
  imports Complex_Main "HOL-Library.Sublist" "HOL-Library.Multiset"
begin

section \<open>somd2 runner: lambda windows, sessions and dispatch\<close>

text \<open>
  A shallow embedding of \<^verbatim>\<open>src/somd2/runner/_dynamics.py\<close> (class Dynamics) and
  \<^verbatim>\<open>src/somd2/runner/_runner.py\<close> (class Runner).

  Python floats (lambda values, times in one common unit) are reals. Sums, differences
  and comparisons are the mathematical ones. The quotient of the production run, whose
  integer part the source takes unrounded, is the quotient of the float division, which
  is a parameter of the model and is instantiated with IEEE double division. Python
  exceptions are values of \<open>py_exception\<close>; a function that can raise returns a sum
  with the exception on the left.
\<close>

datatype py_exception =
    ValueError
  | KeyError
  | TypeError
  | AttributeError
  | IndexError
  | ZeroDivisionError
  | UnboundLocalError
  | ExternalError nat

subsection \<open>Gradient neighbours (\<^verbatim>\<open>generate_lam_vals\<close>, nested in \<^verbatim>\<open>Dynamics._run\<close>)\<close>

definition generate_lam_vals :: "real \<Rightarrow> real \<Rightarrow> py_exception + real list" where
  "generate_lam_vals lambda_base increment =
     (if lambda_base + increment > 1 \<and> lambda_base - increment < 0 then Inl ValueError
      else if lambda_base + increment > 1 then Inr [lambda_base - increment]
      else if lambda_base - increment < 0 then Inr [lambda_base + increment]
      else Inr [lambda_base - increment, lambda_base + increment])"

subsection \<open>The configuration object\<close>

text \<open>
  The class \<^verbatim>\<open>Config\<close> is not part of the two modelled files; the record holds the
  attributes that the modelled code reads or assigns. Times are reals in one common unit
  (the source compares and divides their \<^verbatim>\<open>.value()\<close>). An assignment such as
  \<^verbatim>\<open>config.runtime = str(t)\<close> stores the time \<open>t\<close>. The object is shared by
  reference between the Runner and every Dynamics it creates, so each operation below
  returns the configuration as it is after the operation.
\<close>

record config =
  restart :: bool
  runtime :: real
  checkpoint_frequency :: real
  energy_frequency :: real
  frame_frequency :: real
  minimise :: bool
  equilibration_time :: real
  timestep :: real
  equilibration_timestep :: real
  equilibration_constraints :: bool
  constraint :: string
  perturbable_constraint :: string
  save_trajectories :: bool
  save_energy_components :: bool
  platform :: string
  num_lambda :: "int option"
  run_parallel :: bool
  max_threads :: int
  max_gpus :: "int option"
  extra_args :: "(string \<times> int) list"
  lambda_schedule :: string

subsection \<open>Python numerics\<close>

text \<open>\<^verbatim>\<open>int(x)\<close> on a float truncates towards zero.\<close>

definition py_int :: "real \<Rightarrow> int" where
  "py_int x = (if 0 \<le> x then \<lfloor>x\<rfloor> else \<lceil>x\<rceil>)"

text \<open>\<^verbatim>\<open>round(x, ndigits)\<close>: to the nearest multiple of \<open>10^-ndigits\<close>, ties to even.\<close>

definition round_half_even :: "real \<Rightarrow> int" where
  "round_half_even y =
     (let f = \<lfloor>y\<rfloor>; d = y - of_int f
      in if d < 1 / 2 then f
         else if 1 / 2 < d then f + 1
         else if even f then f else f + 1)"

definition py_round :: "real \<Rightarrow> nat \<Rightarrow> real" where
  "py_round x ndigits = of_int (round_half_even (x * 10 ^ ndigits)) / 10 ^ ndigits"

text \<open>\<^verbatim>\<open>range(n)\<close> for an integer \<open>n\<close>: empty when \<open>n \<le> 0\<close>.\<close>

definition py_range :: "int \<Rightarrow> int list" where
  "py_range n = map int [0..<nat n]"

subsection \<open>Float division\<close>

text \<open>
  The division of two floats is the IEEE-754 binary64 division: the exact quotient
  rounded to the nearest double, ties to even. \<open>bits n\<close> is the number of binary
  digits of \<open>n\<close>, \<open>binade x\<close> the exponent \<open>e\<close> with \<open>2^e \<le> x < 2^(e+1)\<close> of a
  positive \<open>x\<close>, and \<open>round_double x\<close> the double nearest to \<open>x\<close>, which has 53
  significant binary digits (overflow and subnormal numbers are left out). Python raises
  for a zero divisor; the one division modelled with \<open>double_div\<close> is guarded by a
  positive divisor.
\<close>

fun bits :: "nat \<Rightarrow> nat" where
  "bits n = (if n = 0 then 0 else Suc (bits (n div 2)))"

declare bits.simps [simp del]

definition binade :: "real \<Rightarrow> int" where
  "binade x =
     (if 1 \<le> x then int (bits (nat \<lfloor>x\<rfloor>)) - 1
      else - int (bits (nat (\<lceil>1 / x\<rceil> - 1))))"

definition round_double :: "real \<Rightarrow> real" where
  "round_double x =
     (if x = 0 then 0
      else if 0 < x then
        of_int (round_half_even (x * 2 powi (52 - binade x))) * 2 powi (binade x - 52)
      else
        - (of_int (round_half_even (- x * 2 powi (52 - binade (- x)))) *
           2 powi (binade (- x) - 52)))"

type_synonym float_div = "real \<Rightarrow> real \<Rightarrow> real"

definition double_div :: float_div where
  "double_div a b = round_double (a / b)"

subsection \<open>Lists as objects\<close>

text \<open>
  A Python list is an object that several names can refer to. The heap is the list of
  all list objects; a reference is an index into it. \<^verbatim>\<open>copy()\<close> and
  \<^verbatim>\<open>sorted()\<close> allocate a new object, \<^verbatim>\<open>append\<close> updates one in place.
\<close>

type_synonym heap = "real list list"

definition list_copy :: "heap \<Rightarrow> nat \<Rightarrow> heap \<times> nat" where
  "list_copy h a = (h @ [h ! a], length h)"

definition list_append :: "heap \<Rightarrow> nat \<Rightarrow> real \<Rightarrow> heap" where
  "list_append h a v = h[a := h ! a @ [v]]"

definition list_sorted :: "heap \<Rightarrow> nat \<Rightarrow> heap \<times> nat" where
  "list_sorted h a = (h @ [sort (h ! a)], length h)"

subsection \<open>\<^verbatim>\<open>Dynamics.__init__\<close>\<close>

text \<open>
  The session object. \<open>lambda_energy\<close> holds the value of the list that
  \<^verbatim>\<open>self._lambda_energy\<close> refers to: that list is the fresh result of
  \<^verbatim>\<open>sorted\<close> and no other name refers to it. \<open>lambda_grad\<close> is unset until
  \<^verbatim>\<open>_run\<close> assigns it. \<open>loop_x\<close> is the local variable \<^verbatim>\<open>x\<close> of
  \<^verbatim>\<open>_run\<close> (unbound before the block loop), and \<open>trace\<close> is the sequence of
  calls made so far to the engine and to the file system.

  An event is one such call. \<open>Dyn_run x d\<close> is \<^verbatim>\<open>self._dyn.run(d, ...)\<close> issued by the
  block loop while the block index is \<open>x\<close>; \<open>Save_chunk x\<close> writes the trajectory
  chunk whose file name ends in \<open>x\<close>; \<open>Dyn_run_whole d\<close> is the single run of the
  branch without checkpoints; \<open>Time_speed\<close> is the call of \<^verbatim>\<open>get_timing\<close> and
  \<open>Result_to_parquet\<close> the write of the result by \<^verbatim>\<open>run_window\<close>.
\<close>

datatype event =
    Save_topology
  | Minimisation real string string
  | Setup_dynamics bool
  | Equilibration_run real
  | Set_time_zero
  | Dyn_run int real
  | Dyn_run_whole real
  | Save_energy_components
  | Commit
  | Save_chunk int
  | Save_checkpoint
  | Write_energy_traj
  | Append_energy_traj
  | Merge_trajectory
  | Final_checkpoint
  | Time_speed
  | Result_to_parquet

record session =
  config_of :: config
  current_block :: int
  lambda_val :: real
  lambda_array :: "real list"
  lambda_energy :: "real list"
  increment :: real
  device :: "nat option"
  has_space :: bool
  lambda_grad :: "real list option"
  loop_x :: "int option"
  trace :: "event list"

text \<open>
  Lines 96-109: on a restart the remaining runtime and the current block number.
  The float division raises when the checkpoint frequency is zero. Its quotient is
  rounded to 12 decimals before \<^verbatim>\<open>int\<close> is taken, which absorbs the rounding of
  the division, so the quotient is the exact one here. The configuration is returned on
  every path, since the assignment to \<^verbatim>\<open>runtime\<close> comes first.
\<close>

definition restart_setup :: "config \<Rightarrow> real \<Rightarrow> (py_exception + int) \<times> config" where
  "restart_setup cfg system_time =
     (if restart cfg then
        (let cfg' = cfg\<lparr>runtime := runtime cfg - system_time\<rparr>
         in if checkpoint_frequency cfg' = 0 then (Inl ZeroDivisionError, cfg')
            else (Inr (py_int (py_round (system_time / checkpoint_frequency cfg') 12)), cfg'))
      else (Inr 0, cfg))"

text \<open>
  Lines 111-114: the energy-sample lambdas. \<open>lambda_energy\<close> is the caller's reference,
  or None. The result is the reference of the sorted list and the heap after the three
  statements.
\<close>

definition energy_lambdas :: "heap \<Rightarrow> nat option \<Rightarrow> real \<Rightarrow> py_exception + (heap \<times> nat)" where
  "energy_lambdas h lambda_energy_ref lam =
     (case lambda_energy_ref of
        None \<Rightarrow> Inl AttributeError
      | Some a \<Rightarrow>
          (let (h1, c) = list_copy h a;
               h2 = (if lam \<notin> set (h1 ! c) then list_append h1 c lam else h1)
           in Inr (list_sorted h2 c)))"

text \<open>
  The constructor. \<open>perturbable\<close> says whether the system has perturbable molecules,
  \<open>system_time\<close> is the simulated time persisted in the system. The type check of
  \<^verbatim>\<open>config\<close> always passes on a \<open>config\<close>. Of \<^verbatim>\<open>create_filenames\<close>
  the model keeps the check that can raise; the file names are not read by anything
  modelled here.
\<close>

definition Dynamics_init ::
  "heap \<Rightarrow> bool \<Rightarrow> real \<Rightarrow> real \<Rightarrow> real list \<Rightarrow> nat option \<Rightarrow> config \<Rightarrow> real \<Rightarrow> nat option \<Rightarrow> bool
     \<Rightarrow> (py_exception + session) \<times> config \<times> heap" where
  "Dynamics_init h perturbable system_time lam lam_array lambda_energy_ref cfg incr dev space =
     (if \<not> perturbable then (Inl KeyError, cfg, h)
      else
        (case restart_setup cfg system_time of
           (Inl e, cfg') \<Rightarrow> (Inl e, cfg', h)
         | (Inr blk, cfg') \<Rightarrow>
             (case energy_lambdas h lambda_energy_ref lam of
                Inl e \<Rightarrow> (Inl e, cfg', h)
              | Inr (h', r) \<Rightarrow>
                  if lam \<notin> set lam_array then (Inl ValueError, cfg', h')
                  else
                    (Inr \<lparr>config_of = cfg', current_block = blk, lambda_val = lam,
                          lambda_array = lam_array, lambda_energy = h' ! r,
                          increment = incr, device = dev, has_space = space,
                          lambda_grad = None, loop_x = None, trace = []\<rparr>,
                     cfg', h'))))"

subsection \<open>\<^verbatim>\<open>Dynamics._run\<close>\<close>

text \<open>
  The engine and the file system are outside the modelled files. A world says, for the
  calls made so far and the next call, whether that call raises. A statement takes the
  session and returns the exception it raised, if any, and the session after it.
\<close>

type_synonym world = "event list \<Rightarrow> event \<Rightarrow> py_exception option"

type_synonym stmt = "session \<Rightarrow> py_exception option \<times> session"

definition call :: "world \<Rightarrow> event \<Rightarrow> stmt" where
  "call w ev s = (w (trace s) ev, s\<lparr>trace := trace s @ [ev]\<rparr>)"

definition skip :: stmt where
  "skip s = (None, s)"

definition and_then :: "stmt \<Rightarrow> stmt \<Rightarrow> stmt" where
  "and_then f g s = (case f s of (None, s') \<Rightarrow> g s' | (Some e, s') \<Rightarrow> (Some e, s'))"

fun seq :: "stmt list \<Rightarrow> stmt" where
  "seq [] = skip"
| "seq (f # fs) = and_then f (seq fs)"

definition only_if :: "bool \<Rightarrow> stmt \<Rightarrow> stmt" where
  "only_if b f = (if b then f else skip)"

text \<open>\<^verbatim>\<open>_minimisation\<close>: at \<open>lambda_min\<close>, or at the window's lambda when it is None.\<close>

definition minimisation :: "world \<Rightarrow> real option \<Rightarrow> string \<Rightarrow> string \<Rightarrow> stmt" where
  "minimisation w lambda_min con pcon s =
     (case lambda_min of
        None \<Rightarrow> call w (Minimisation (lambda_val s) con pcon) s
      | Some l \<Rightarrow> call w (Minimisation l con pcon) s)"

text \<open>\<^verbatim>\<open>_equilibration\<close>: set up the dynamics, run without sampling, commit.\<close>

definition equilibration :: "world \<Rightarrow> stmt" where
  "equilibration w s =
     seq [call w (Setup_dynamics True),
          call w (Equilibration_run (equilibration_time (config_of s))),
          call w Commit] s"

text \<open>Lines 342-374: minimisation and equilibration before production.\<close>

definition prepare :: "world \<Rightarrow> real option \<Rightarrow> bool \<Rightarrow> stmt" where
  "prepare w lambda_minimisation is_restart s =
     (let cfg = config_of s;
          equil = (equilibration_time cfg > 0 \<and> \<not> is_restart)
      in seq [only_if (minimise cfg)
                (if equil then minimisation w lambda_minimisation ''none'' ''none''
                 else minimisation w lambda_minimisation (constraint cfg) (perturbable_constraint cfg)),
              only_if equil
                (seq [equilibration w,
                      call w Set_time_zero,
                      only_if (timestep cfg > equilibration_timestep cfg \<or>
                            (\<not> equilibration_constraints cfg \<and> perturbable_constraint cfg \<noteq> ''none''))
                        (minimisation w (Some (lambda_val s)) (constraint cfg) (perturbable_constraint cfg))])] s)"

text \<open>Line 380: the gradient neighbours; the ValueError propagates.\<close>

definition set_lambda_grad :: stmt where
  "set_lambda_grad s =
     (case generate_lam_vals (lambda_val s) (increment s) of
        Inl e \<Rightarrow> (Some e, s)
      | Inr ls \<Rightarrow> (None, s\<lparr>lambda_grad := Some ls\<rparr>))"

text \<open>
  Lines 414-498: one pass of the block loop for the loop counter \<open>i\<close>. The index is
  the counter plus the current block; line 438 sets an index of zero to the current
  block. The loop variable keeps the index after the pass.
\<close>

definition block_body :: "world \<Rightarrow> int \<Rightarrow> stmt" where
  "block_body w i s =
     (let cfg = config_of s;
          x = i + current_block s;
          x' = (if x = 0 then current_block s else x)
      in seq [call w (Dyn_run x (checkpoint_frequency cfg)),
              only_if (save_energy_components cfg) (call w Save_energy_components),
              call w Commit,
              only_if (save_trajectories cfg) (call w (Save_chunk x')),
              call w Save_checkpoint,
              (if x' = current_block s then call w Write_energy_traj
               else call w Append_energy_traj),
              (\<lambda>t. (None, t\<lparr>loop_x := Some x'\<rparr>))] (s\<lparr>loop_x := Some x\<rparr>))"

fun block_loop :: "world \<Rightarrow> int list \<Rightarrow> stmt" where
  "block_loop w [] = skip"
| "block_loop w (i # is) = and_then (block_body w i) (block_loop w is)"

text \<open>
  Lines 500-534: the final block of length \<open>rem\<close>, which has no checkpoint. The
  increment of \<^verbatim>\<open>x\<close> raises when the loop never bound it.
\<close>

definition remainder_block :: "world \<Rightarrow> real \<Rightarrow> stmt" where
  "remainder_block w rem s =
     (case loop_x s of
        None \<Rightarrow> (Some UnboundLocalError, s)
      | Some x0 \<Rightarrow>
          (let x = x0 + 1
           in seq [call w (Dyn_run x rem),
                   only_if (save_trajectories (config_of s)) (call w (Save_chunk x)),
                   call w Commit] (s\<lparr>loop_x := Some x\<rparr>)))"

text \<open>
  Lines 394-547: the production run. With a positive checkpoint frequency the runtime is
  cut into blocks; a runtime below the frequency sets the frequency to the runtime
  (an assignment to the shared configuration). \<open>fdiv\<close> is the float division of line
  397; the subtraction of the integer part from a float is exact. The number of rows
  \<^verbatim>\<open>energy_per_block\<close> only selects what is appended to the energy file and is
  left out.
\<close>

definition production :: "float_div \<Rightarrow> world \<Rightarrow> stmt" where
  "production fdiv w s =
     (let cfg = config_of s
      in if checkpoint_frequency cfg > 0 then
           (let frac0 = fdiv (runtime cfg) (checkpoint_frequency cfg);
                frac = (if frac0 < 1 then 1 else frac0);
                cfg' = (if frac0 < 1 then cfg\<lparr>checkpoint_frequency := runtime cfg\<rparr> else cfg);
                num_blocks = py_int frac;
                rem = frac - of_int num_blocks
            in and_then (block_loop w (py_range num_blocks))
                 (only_if (rem > 0) (remainder_block w rem)) (s\<lparr>config_of := cfg'\<rparr>))
         else seq [call w (Dyn_run_whole (checkpoint_frequency cfg)), call w Commit] s)"

text \<open>Lines 549-603: merge the trajectory chunks, write the last checkpoint.\<close>

definition finalise :: "world \<Rightarrow> stmt" where
  "finalise w s =
     seq [only_if (save_trajectories (config_of s)) (call w Merge_trajectory),
          call w Final_checkpoint] s"

definition Dynamics_run :: "float_div \<Rightarrow> world \<Rightarrow> real option \<Rightarrow> bool \<Rightarrow> stmt" where
  "Dynamics_run fdiv w lambda_minimisation is_restart =
     seq [call w Save_topology,
          prepare w lambda_minimisation is_restart,
          call w (Setup_dynamics False),
          set_lambda_grad,
          production fdiv w,
          finalise w]"

text \<open>\<^verbatim>\<open>get_timing\<close>: the speed reported by the engine.\<close>

definition get_timing :: "world \<Rightarrow> stmt" where
  "get_timing w = call w Time_speed"

text \<open>The world in which no call raises.\<close>

definition calm :: world where
  "calm tr ev = None"

text \<open>
  What a trace says about the blocks: \<open>block_runs\<close> lists the runs of the block loop
  with their index and length, \<open>block_steps\<close> lists the runs (by length) together with
  the checkpoint writes.
\<close>

fun block_runs :: "event list \<Rightarrow> (int \<times> real) list" where
  "block_runs [] = []"
| "block_runs (Dyn_run x d # evs) = (x, d) # block_runs evs"
| "block_runs (ev # evs) = block_runs evs"

datatype block_step = Run real | Checkpoint

fun block_steps :: "event list \<Rightarrow> block_step list" where
  "block_steps [] = []"
| "block_steps (Dyn_run x d # evs) = Run d # block_steps evs"
| "block_steps (Save_checkpoint # evs) = Checkpoint # block_steps evs"
| "block_steps (ev # evs) = block_steps evs"

text \<open>
  The partition of a run with runtime \<open>r\<close> and checkpoint frequency \<open>c\<close> for a
  quotient \<open>q\<close>: below 1 it is one checkpointed block of length \<open>r\<close>; otherwise there
  are \<open>floor q\<close> checkpointed blocks of length \<open>c\<close>, and the fraction \<open>q - floor q\<close>,
  when positive, is run once more with no checkpoint. \<open>spec_steps\<close> is the partition as
  the specification words it, with the quotient \<open>r / c\<close> and the test \<open>r < c\<close>.
\<close>

definition quotient_steps :: "real \<Rightarrow> real \<Rightarrow> real \<Rightarrow> block_step list" where
  "quotient_steps q r c =
     (if q < 1 then [Run r, Checkpoint]
      else concat (replicate (nat \<lfloor>q\<rfloor>) [Run c, Checkpoint]) @
           (if 0 < q - of_int \<lfloor>q\<rfloor> then [Run (q - of_int \<lfloor>q\<rfloor>)] else []))"

definition spec_steps :: "real \<Rightarrow> real \<Rightarrow> block_step list" where
  "spec_steps r c =
     (if r < c then [Run r, Checkpoint]
      else concat (replicate (nat \<lfloor>r / c\<rfloor>) [Run c, Checkpoint]) @
           (if 0 < r / c - of_int \<lfloor>r / c\<rfloor> then [Run (r / c - of_int \<lfloor>r / c\<rfloor>)] else []))"

text \<open>
  The calls of the production run in the order of the source, used to state what the
  loop does in any world: the calls of one pass of the loop, the index the pass leaves
  in \<^verbatim>\<open>x\<close>, the calls of the final block, and all of them for a configuration and a
  current block.
\<close>

definition body_events :: "config \<Rightarrow> int \<Rightarrow> int \<Rightarrow> event list" where
  "body_events cfg cb i =
     (let x = i + cb; x' = (if x = 0 then cb else x)
      in [Dyn_run x (checkpoint_frequency cfg)] @
         (if save_energy_components cfg then [Save_energy_components] else []) @
         [Commit] @
         (if save_trajectories cfg then [Save_chunk x'] else []) @
         [Save_checkpoint, if x' = cb then Write_energy_traj else Append_energy_traj])"

definition body_index :: "int \<Rightarrow> int \<Rightarrow> int" where
  "body_index cb i = (if i + cb = 0 then cb else i + cb)"

definition remainder_events :: "config \<Rightarrow> int \<Rightarrow> real \<Rightarrow> event list" where
  "remainder_events cfg x rem =
     [Dyn_run x rem] @ (if save_trajectories cfg then [Save_chunk x] else []) @ [Commit]"

definition production_plan :: "float_div \<Rightarrow> config \<Rightarrow> int \<Rightarrow> event list" where
  "production_plan fdiv cfg cb =
     (let frac0 = fdiv (runtime cfg) (checkpoint_frequency cfg);
          frac = (if frac0 < 1 then 1 else frac0);
          cfg' = (if frac0 < 1 then cfg\<lparr>checkpoint_frequency := runtime cfg\<rparr> else cfg);
          num_blocks = py_int frac;
          rem = frac - of_int num_blocks
      in concat (map (body_events cfg' cb) (py_range num_blocks)) @
         (if rem > 0
          then remainder_events cfg' (body_index cb (last (py_range num_blocks)) + 1) rem
          else []))"

text \<open>
  \<open>emits f s evs\<close>: run from \<open>s\<close>, the statement \<open>f\<close> appends all of \<open>evs\<close> to the
  trace when it returns, and a prefix of \<open>evs\<close> when it raises.
\<close>

definition emits :: "stmt \<Rightarrow> session \<Rightarrow> event list \<Rightarrow> bool" where
  "emits f s evs =
     (if fst (f s) = None then trace (snd (f s)) = trace s @ evs
      else (\<exists>p. trace (snd (f s)) = trace s @ p \<and> prefix p evs))"

definition frame :: "session \<Rightarrow> config \<times> int" where
  "frame s = (config_of s, current_block s)"

subsection \<open>The Runner\<close>

text \<open>
  \<open>logged\<close> records what a Runner wrote to its log and printed.
\<close>

datatype log_entry =
    Info_running real
  | Warning_creation_failed real
  | Warning_retry real py_exception
  | Error_failed_after_retry real py_exception
  | Error_dynamics_failed real py_exception
  | Printed_gpu real nat
  | Printed_exception py_exception
  | Success real

text \<open>\<^verbatim>\<open>run_window\<close> returns the string "Lambda = ... complete" for its lambda.\<close>

datatype result = Complete real

text \<open>
  The Runner object: the configuration, the lambda values, the device pool (None until
  \<^verbatim>\<open>_create_shared_resources\<close> creates the attribute), \<^verbatim>\<open>max_workers\<close>, the
  simulation \<^verbatim>\<open>_sim\<close> (None until one is constructed), and what the model needs of
  the system: whether it has perturbable molecules, the simulated time persisted in it,
  and whether it has a periodic space. Device identifiers are the naturals whose decimal
  string the source stores in the pool. The configuration of the Runner and the
  configuration of the simulation it constructs are one object: after a call on the
  simulation the Runner's configuration is the simulation's.
\<close>

record runner =
  r_config :: config
  lambda_values :: "real list"
  gpu_pool :: "nat list option"
  max_workers :: "int option"
  sim :: "session option"
  system_perturbable :: bool
  system_time :: real
  r_has_space :: bool
  logged :: "log_entry list"

definition log_line :: "log_entry \<Rightarrow> runner \<Rightarrow> runner" where
  "log_line m r = r\<lparr>logged := logged r @ [m]\<rparr>"

text \<open>\<^verbatim>\<open>_set_lambda_schedule\<close> (line 192) assigns to the configuration.\<close>

definition set_lambda_schedule :: "string \<Rightarrow> runner \<Rightarrow> runner" where
  "set_lambda_schedule schedule r = r\<lparr>r_config := (r_config r)\<lparr>lambda_schedule := schedule\<rparr>\<rparr>"

text \<open>The lambda grid of \<^verbatim>\<open>__init__\<close> and of the sequential branch of \<^verbatim>\<open>run\<close>.\<close>

definition lambda_grid :: "int \<Rightarrow> py_exception + real list" where
  "lambda_grid n =
     (if py_range n = [] then Inr []
      else if n - 1 = 0 then Inl ZeroDivisionError
      else Inr (map (\<lambda>i. py_round (of_int i / of_int (n - 1)) 5) (py_range n)))"

subsubsection \<open>The device pool\<close>

text \<open>\<^verbatim>\<open>devices.index(value)\<close>: the first position of a value that is in the list.\<close>

fun index_of :: "'a list \<Rightarrow> 'a \<Rightarrow> nat" where
  "index_of [] v = 0"
| "index_of (x # xs) v = (if x = v then 0 else Suc (index_of xs v))"

definition zero_cuda_devices :: "string list \<Rightarrow> nat list" where
  "zero_cuda_devices devices = map (index_of devices) devices"

text \<open>The slice \<^verbatim>\<open>xs[:n]\<close>; a negative \<open>n\<close> counts from the end.\<close>

definition py_slice_to :: "'a list \<Rightarrow> int \<Rightarrow> 'a list" where
  "py_slice_to xs n = (if 0 \<le> n then take (nat n) xs else take (length xs - nat (- n)) xs)"

text \<open>
  \<^verbatim>\<open>get_cuda_devices\<close> reads CUDA_VISIBLE_DEVICES; \<open>env\<close> is its value split at
  the commas, or None when the variable is not set.
\<close>

definition get_cuda_devices :: "string list option \<Rightarrow> py_exception + string list" where
  "get_cuda_devices env = (case env of None \<Rightarrow> Inl ValueError | Some ds \<Rightarrow> Inr ds)"

definition create_shared_resources ::
  "string list option \<Rightarrow> runner \<Rightarrow> py_exception option \<times> runner" where
  "create_shared_resources env r =
     (if platform (r_config r) = ''cuda'' then
        (case get_cuda_devices env of
           Inl e \<Rightarrow> (Some e, r)
         | Inr ds \<Rightarrow>
             (case max_gpus (r_config r) of
                None \<Rightarrow> (None, r\<lparr>gpu_pool := Some (zero_cuda_devices ds)\<rparr>)
              | Some n \<Rightarrow> (None, r\<lparr>gpu_pool := Some (zero_cuda_devices (py_slice_to ds n))\<rparr>)))
      else (None, r))"

definition update_gpu_pool :: "nat \<Rightarrow> runner \<Rightarrow> runner" where
  "update_gpu_pool gpu_num r = r\<lparr>gpu_pool := map_option (\<lambda>p. p @ [gpu_num]) (gpu_pool r)\<rparr>"

definition remove_gpu_from_pool :: "nat \<Rightarrow> runner \<Rightarrow> runner" where
  "remove_gpu_from_pool gpu_num r = r\<lparr>gpu_pool := map_option (remove1 gpu_num) (gpu_pool r)\<rparr>"

subsubsection \<open>\<^verbatim>\<open>Runner.run_window\<close>\<close>

text \<open>
  A call binds its arguments before the body of the callee runs: a required parameter
  that the call does not supply is a TypeError. \<open>Dynamics_call\<close> is a call of the class
  \<^verbatim>\<open>Dynamics\<close> in which \<^verbatim>\<open>lambda_energy\<close>, which has no default, is supplied
  (\<open>Given\<close>) or missing.
\<close>

datatype 'a argument = Missing | Given 'a

definition Dynamics_call ::
  "heap \<Rightarrow> bool \<Rightarrow> real \<Rightarrow> real \<Rightarrow> real list \<Rightarrow> nat option argument \<Rightarrow> config \<Rightarrow> real
     \<Rightarrow> nat option \<Rightarrow> bool \<Rightarrow> (py_exception + session) \<times> config \<times> heap" where
  "Dynamics_call h perturbable t lam lam_array energy_arg cfg incr dev space =
     (case energy_arg of
        Missing \<Rightarrow> (Inl TypeError, cfg, h)
      | Given ref \<Rightarrow> Dynamics_init h perturbable t lam lam_array ref cfg incr dev space)"

text \<open>
  \<^verbatim>\<open>_initialise_simulation\<close> (lines 257-268). The call names \<^verbatim>\<open>lambda_val\<close>,
  \<^verbatim>\<open>lambda_array\<close>, \<^verbatim>\<open>config\<close>, \<^verbatim>\<open>device\<close> and \<^verbatim>\<open>has_space\<close> and
  leaves \<^verbatim>\<open>lambda_energy\<close> out; \<^verbatim>\<open>increment\<close> takes its default. No list is
  passed for \<^verbatim>\<open>lambda_energy\<close>, so the heap of the call is empty. A failing
  constructor is logged and re-raised.
\<close>

definition initialise_simulation ::
  "real \<Rightarrow> nat option \<Rightarrow> runner \<Rightarrow> py_exception option \<times> runner" where
  "initialise_simulation lam dev r =
     (case Dynamics_call [] (system_perturbable r) (system_time r) lam (lambda_values r)
             Missing (r_config r) 0.001 dev (r_has_space r) of
        (Inl e, cfg', h') \<Rightarrow>
          (Some e, log_line (Warning_creation_failed lam) (r\<lparr>r_config := cfg'\<rparr>))
      | (Inr s, cfg', h') \<Rightarrow> (None, r\<lparr>r_config := cfg', sim := Some s\<rparr>))"

text \<open>
  The body of each \<^verbatim>\<open>try\<close> of the nested \<^verbatim>\<open>_run\<close>:
  \<^verbatim>\<open>sim._run(...)\<close>, then \<^verbatim>\<open>sim.get_timing()\<close>.
\<close>

definition attempt :: "float_div \<Rightarrow> world \<Rightarrow> real option \<Rightarrow> stmt" where
  "attempt fdiv w lambda_minimisation =
     and_then (Dynamics_run fdiv w lambda_minimisation False) (get_timing w)"

text \<open>
  The nested \<^verbatim>\<open>_run(sim)\<close> (lines 356-387), for the window at \<open>lam\<close> and the
  simulation \<open>s\<close>. It returns the tuple, or raises, or, without minimisation, falls off
  its end after the exception of the single attempt, which returns None.
  \<^verbatim>\<open>self._config\<close> is the configuration of the simulation. \<open>attempts\<close> lists the
  arguments \<^verbatim>\<open>lambda_minimisation\<close> of the calls of \<^verbatim>\<open>sim._run\<close> in their
  order, \<open>messages\<close> the warnings and errors logged.
\<close>

datatype run_result = Returned_tuple | Returned_None | Raised py_exception

record run_outcome =
  result_of :: run_result
  sim_after :: session
  attempts :: "real option list"
  messages :: "log_entry list"

definition run_window_run :: "float_div \<Rightarrow> world \<Rightarrow> real \<Rightarrow> session \<Rightarrow> run_outcome" where
  "run_window_run fdiv w lam s =
     (if minimise (config_of s) then
        (case attempt fdiv w None s of
           (None, s1) \<Rightarrow>
             \<lparr>result_of = Returned_tuple, sim_after = s1, attempts = [None], messages = []\<rparr>
         | (Some e, s1) \<Rightarrow>
             (case attempt fdiv w (Some 0) s1 of
                (None, s2) \<Rightarrow>
                  \<lparr>result_of = Returned_tuple, sim_after = s2, attempts = [None, Some 0],
                   messages = [Warning_retry lam e]\<rparr>
              | (Some e2, s2) \<Rightarrow>
                  \<lparr>result_of = Raised e2, sim_after = s2, attempts = [None, Some 0],
                   messages = [Warning_retry lam e, Error_failed_after_retry lam e2]\<rparr>))
      else
        (case attempt fdiv w None s of
           (None, s1) \<Rightarrow>
             \<lparr>result_of = Returned_tuple, sim_after = s1, attempts = [None], messages = []\<rparr>
         | (Some e, s1) \<Rightarrow>
             \<lparr>result_of = Returned_None, sim_after = s1, attempts = [None],
              messages = [Error_dynamics_failed lam e]\<rparr>))"

text \<open>
  \<^verbatim>\<open>_run(self._sim)\<close> as \<^verbatim>\<open>run_window\<close> calls it: the simulation, the
  configuration and the log of the Runner after the call.
\<close>

definition run_sim :: "float_div \<Rightarrow> world \<Rightarrow> real \<Rightarrow> runner \<Rightarrow> run_result \<times> runner" where
  "run_sim fdiv w lam r =
     (case sim r of
        None \<Rightarrow> (Raised AttributeError, r)
      | Some s \<Rightarrow>
          (let out = run_window_run fdiv w lam s
           in (result_of out,
               r\<lparr>sim := Some (sim_after out), r_config := config_of (sim_after out),
                 logged := logged r @ messages out\<rparr>)))"

text \<open>Lines 400-408: the device of the window.\<close>

definition acquire_gpu :: "real \<Rightarrow> runner \<Rightarrow> (py_exception + nat) \<times> runner" where
  "acquire_gpu lam r =
     (if run_parallel (r_config r) then
        (case gpu_pool r of
           None \<Rightarrow> (Inl AttributeError, r)
         | Some [] \<Rightarrow> (Inl IndexError, r)
         | Some (gpu_num # rest) \<Rightarrow>
             (Inr gpu_num, log_line (Printed_gpu lam gpu_num) (remove_gpu_from_pool gpu_num r)))
      else (Inr 0, r))"

definition release_gpu :: "nat \<Rightarrow> runner \<Rightarrow> runner" where
  "release_gpu gpu_num r = (if run_parallel (r_config r) then update_gpu_pool gpu_num r else r)"

text \<open>
  Lines 397/421 and 423-437: clean up (the deletion of \<^verbatim>\<open>_dyn\<close>), write the result,
  report success.
\<close>

definition finish_window :: "world \<Rightarrow> real \<Rightarrow> runner \<Rightarrow> (py_exception + result) \<times> runner" where
  "finish_window w lam r =
     (case sim r of
        None \<Rightarrow> (Inl AttributeError, r)
      | Some s \<Rightarrow>
          (case call w Result_to_parquet s of
             (Some e, s') \<Rightarrow> (Inl e, r\<lparr>sim := Some s'\<rparr>)
           | (None, s') \<Rightarrow> (Inr (Complete lam), log_line (Success lam) (r\<lparr>sim := Some s'\<rparr>))))"

text \<open>
  \<^verbatim>\<open>run_window\<close>. Unpacking the None of \<^verbatim>\<open>_run\<close> is a TypeError, raised inside
  the \<^verbatim>\<open>try\<close>. On a platform that is neither cpu nor cuda no simulation runs and
  \<^verbatim>\<open>df\<close> is unbound at line 424.
\<close>

definition Runner_run_window ::
  "float_div \<Rightarrow> world \<Rightarrow> real \<Rightarrow> runner \<Rightarrow> (py_exception + result) \<times> runner" where
  "Runner_run_window fdiv w lam r0 =
     (let r = log_line (Info_running lam) r0
      in if platform (r_config r) = ''cpu'' then
           (case initialise_simulation lam None r of
              (Some e, r1) \<Rightarrow> (Inl e, r1)
            | (None, r1) \<Rightarrow>
                (case run_sim fdiv w lam r1 of
                   (Raised e, r2) \<Rightarrow> (Inl e, r2)
                 | (Returned_None, r2) \<Rightarrow> (Inl TypeError, r2)
                 | (Returned_tuple, r2) \<Rightarrow> finish_window w lam r2))
         else if platform (r_config r) = ''cuda'' then
           (case acquire_gpu lam r of
              (Inl e, r1) \<Rightarrow> (Inl e, r1)
            | (Inr gpu_num, r1) \<Rightarrow>
                (case initialise_simulation lam (Some gpu_num) r1 of
                   (Some e, r2) \<Rightarrow> (Inl e, r2)
                 | (None, r2) \<Rightarrow>
                     (case run_sim fdiv w lam r2 of
                        (Raised e, r3) \<Rightarrow> (Inl e, release_gpu gpu_num r3)
                      | (Returned_None, r3) \<Rightarrow> (Inl TypeError, release_gpu gpu_num r3)
                      | (Returned_tuple, r3) \<Rightarrow> finish_window w lam (release_gpu gpu_num r3))))
         else (Inl UnboundLocalError, r))"

subsubsection \<open>\<^verbatim>\<open>Runner.run\<close>\<close>

text \<open>
  Lines 286-301: the shared resources, the number of workers and the extra arguments of
  the parallel branch. \<open>n\<close> is \<^verbatim>\<open>num_lambda\<close>.
\<close>

definition set_extra_args :: "(string \<times> int) list \<Rightarrow> runner \<Rightarrow> runner" where
  "set_extra_args args r = r\<lparr>r_config := (r_config r)\<lparr>extra_args := args\<rparr>\<rparr>"

definition parallel_setup ::
  "string list option \<Rightarrow> int \<Rightarrow> runner \<Rightarrow> py_exception option \<times> runner" where
  "parallel_setup env n r0 =
     (case create_shared_resources env r0 of
        (Some e, r) \<Rightarrow> (Some e, r)
      | (None, r) \<Rightarrow>
          (let cfg = r_config r
           in if platform cfg = ''cpu'' then
                (if n > max_threads cfg then
                   (None, set_extra_args [(''threads'', 1)] (r\<lparr>max_workers := Some (max_threads cfg)\<rparr>))
                 else if n = 0 then (Some ZeroDivisionError, r\<lparr>max_workers := Some n\<rparr>)
                 else (None, set_extra_args [(''threads'', max_threads cfg div n)]
                               (r\<lparr>max_workers := Some n\<rparr>)))
              else
                (case gpu_pool r of
                   None \<Rightarrow> (Some AttributeError, r)
                 | Some pool \<Rightarrow>
                     (None, set_extra_args [] (r\<lparr>max_workers := Some (int (length pool))\<rparr>)))))"

text \<open>
  Line 303: the executor refuses a number of workers that is not positive.
  Lines 303-306: every window is submitted, and \<^verbatim>\<open>jobs\<close> is assigned anew in each
  pass, so after the loop it holds the job of the last window only (and is unbound when
  there is no window). Each worker process runs \<^verbatim>\<open>run_window\<close> on its own copy of
  the Runner; the device pool alone is shared, and the model keeps the log of the
  workers. The model runs the submitted windows one after the other in the order of
  submission, which is one of the schedules of the pool. The first component is the
  outcome of the job that \<^verbatim>\<open>jobs\<close> holds.
\<close>

fun submit_all ::
  "float_div \<Rightarrow> world \<Rightarrow> real list \<Rightarrow> (py_exception + result) option \<Rightarrow> runner
     \<Rightarrow> (py_exception + result) option \<times> runner" where
  "submit_all fdiv w [] jobs r = (jobs, r)"
| "submit_all fdiv w (lam # lams) jobs r =
     (case Runner_run_window fdiv w lam r of
        (out, r') \<Rightarrow>
          submit_all fdiv w lams (Some out) (r\<lparr>gpu_pool := gpu_pool r', logged := logged r'\<rparr>))"

text \<open>Lines 324-326: the sequential loop; an exception of \<^verbatim>\<open>run_window\<close> leaves it.\<close>

fun run_sequential ::
  "float_div \<Rightarrow> world \<Rightarrow> real list \<Rightarrow> result list \<Rightarrow> runner
     \<Rightarrow> (py_exception + result list) \<times> runner" where
  "run_sequential fdiv w [] results r = (Inr results, r)"
| "run_sequential fdiv w (lam # lams) results r =
     (case Runner_run_window fdiv w lam r of
        (Inl e, r') \<Rightarrow> (Inl e, r')
      | (Inr res, r') \<Rightarrow> run_sequential fdiv w lams (results @ [res]) r')"

definition Runner_run ::
  "float_div \<Rightarrow> world \<Rightarrow> string list option \<Rightarrow> runner
     \<Rightarrow> (py_exception + result list) \<times> runner" where
  "Runner_run fdiv w env r =
     (case num_lambda (r_config r) of
        None \<Rightarrow> (Inl ValueError, r)
      | Some n \<Rightarrow>
          if run_parallel (r_config r) then
            (case parallel_setup env n r of
               (Some e, r1) \<Rightarrow> (Inl e, r1)
             | (None, r1) \<Rightarrow>
                 (case max_workers r1 of
                    None \<Rightarrow> (Inl AttributeError, r1)
                  | Some m \<Rightarrow>
                      if m \<le> 0 then (Inl ValueError, r1)
                      else
                        (case submit_all fdiv w (lambda_values r1) None r1 of
                           (None, r2) \<Rightarrow> (Inl UnboundLocalError, r2)
                         | (Some (Inl e), r2) \<Rightarrow> (Inr [], log_line (Printed_exception e) r2)
                         | (Some (Inr res), r2) \<Rightarrow> (Inr [res], r2))))
          else
            (let r1 = (if platform (r_config r) = ''cpu''
                       then set_extra_args [(''threads'', max_threads (r_config r))] r else r)
             in case lambda_grid n of
                  Inl e \<Rightarrow> (Inl e, r1)
                | Inr grid \<Rightarrow> run_sequential fdiv w grid [] (r1\<lparr>lambda_values := grid\<rparr>)))"

text \<open>
  The configuration of a session with its checkpoint frequency set to a given value, and
  the configuration of a Runner with its extra arguments set to a given value: two
  configurations that agree on these differ at most in that field.
\<close>

definition but_frequency :: "real \<Rightarrow> session \<Rightarrow> config" where
  "but_frequency c0 s = (config_of s)\<lparr>checkpoint_frequency := c0\<rparr>"

definition but_extra_args :: "(string \<times> int) list \<Rightarrow> runner \<Rightarrow> config" where
  "but_extra_args a0 r = (r_config r)\<lparr>extra_args := a0\<rparr>"

text \<open>
  Modelled from the spec: the engine "advances a molecular system by a given amount of
  simulated time"; the engine itself is not in the modelled files. The simulated time
  that a trace adds to the system is the sum of the lengths of its block runs.
\<close>

definition simulated_time :: "event list \<Rightarrow> real" where
  "simulated_time tr = sum_list (map snd (block_runs tr))"

subsection \<open>Concrete inputs\<close>

text \<open>A configuration, sessions and a Runner used to evaluate the model at concrete inputs.\<close>

definition example_config :: config where
  "example_config =
     \<lparr>restart = False, runtime = 5, checkpoint_frequency = 1, energy_frequency = 1,
      frame_frequency = 1, minimise = True, equilibration_time = 0, timestep = 1,
      equilibration_timestep = 1, equilibration_constraints = False,
      constraint = ''h_bonds'', perturbable_constraint = ''h_bonds'',
      save_trajectories = True, save_energy_components = False, platform = ''cpu'',
      num_lambda = Some 2, run_parallel = False, max_threads = 4, max_gpus = None,
      extra_args = [], lambda_schedule = ''standard_morph''\<rparr>"

definition example_session :: "config \<Rightarrow> int \<Rightarrow> session" where
  "example_session cfg blk =
     \<lparr>config_of = cfg, current_block = blk, lambda_val = 0, lambda_array = [0, 1],
      lambda_energy = [0, 1], increment = 0.001, device = None, has_space = True,
      lambda_grad = None, loop_x = None, trace = []\<rparr>"

text \<open>The session of the window at lambda 1/2 of three windows.\<close>

definition middle_session :: "config \<Rightarrow> session" where
  "middle_session cfg =
     \<lparr>config_of = cfg, current_block = 0, lambda_val = 1 / 2, lambda_array = [0, 1 / 2, 1],
      lambda_energy = [0, 1 / 2, 1], increment = 0.001, device = None, has_space = True,
      lambda_grad = None, loop_x = None, trace = []\<rparr>"

definition example_runner :: "config \<Rightarrow> runner" where
  "example_runner cfg =
     \<lparr>r_config = cfg, lambda_values = [0, 1], gpu_pool = None, max_workers = None,
      sim = None, system_perturbable = True, system_time = 0, r_has_space = True,
      logged = []\<rparr>"

text \<open>A world in which the minimisation raises at every lambda but 0.\<close>

definition minimisation_fails_off_zero :: world where
  "minimisation_fails_off_zero tr ev =
     (case ev of Minimisation l con pcon \<Rightarrow> if l = 0 then None else Some (ExternalError 1)
               | _ \<Rightarrow> None)"

text \<open>A world in which every run of the block loop raises.\<close>

definition dynamics_fails :: world where
  "dynamics_fails tr ev = (case ev of Dyn_run x d \<Rightarrow> Some (ExternalError 2) | _ \<Rightarrow> None)"

text \<open>The doubles that the literals \<^verbatim>\<open>0.3\<close> and \<^verbatim>\<open>0.1\<close> denote.\<close>

definition double_0_3 :: real where
  "double_0_3 = 5404319552844595 / 2 ^ 54"

definition double_0_1 :: real where
  "double_0_1 = 3602879701896397 / 2 ^ 55"

section \<open>Properties\<close>

subsection \<open>Gradient neighbours\<close>

text \<open>
  C1 (as amended). \<^verbatim>\<open>generate_lam_vals\<close> returns \<open>[0.001]\<close> for lambda 0.0,
  \<open>[0.999]\<close> for lambda 1.0 and \<open>[0.499, 0.501]\<close> for lambda 0.5, each with
  increment 0.001. For lambda 0.0005 and increment 0.001 it returns \<open>[0.0015]\<close>: the
  upper neighbour is inside the unit interval. The ValueError is raised exactly when the
  upper neighbour is above 1 and the lower one below 0, as for lambda 0.5 and increment 0.6.
\<close>

theorem generate_lam_vals_vectors:
  "generate_lam_vals 0 0.001 = Inr [0.001] \<and>
   generate_lam_vals 1 0.001 = Inr [0.999] \<and>
   generate_lam_vals 0.5 0.001 = Inr [0.499, 0.501] \<and>
   generate_lam_vals 0.0005 0.001 = Inr [0.0015] \<and>
   generate_lam_vals 0.5 0.6 = Inl ValueError \<and>
   (generate_lam_vals l i = Inl ValueError) = (l + i > 1 \<and> l - i < 0) \<and>
   isl (generate_lam_vals l i) = (l + i > 1 \<and> l - i < 0)"
  by (simp add: generate_lam_vals_def)

text \<open>
  C1 as stated fails at its fourth vector: for lambda 0.0005 and increment 0.001 no
  exception is raised.
\<close>

theorem generate_lam_vals_fourth_vector_returns:
  "\<not> isl (generate_lam_vals 0.0005 0.001)"
  by (simp add: generate_lam_vals_def)

subsection \<open>The constructor and the energy-sample lambdas\<close>

lemma energy_lambdas_Some:
  "energy_lambdas h (Some a) lam =
     Inr (h @ [if lam \<in> set (h ! a) then h ! a else h ! a @ [lam]] @
              [sort (if lam \<in> set (h ! a) then h ! a else h ! a @ [lam])],
          Suc (length h))"
  by (simp add: energy_lambdas_def list_copy_def list_append_def list_sorted_def nth_append)

lemma energy_lambdas_None: "energy_lambdas h None lam = Inl AttributeError"
  by (simp add: energy_lambdas_def)

lemma Dynamics_init_Inr:
  assumes "Dynamics_init h p t lam arr ref cfg incr dev space = (Inr s, cfg', h')"
  shows "\<exists>a. ref = Some a \<and>
     lambda_energy s = sort (if lam \<in> set (h ! a) then h ! a else h ! a @ [lam]) \<and>
     h' = h @ [if lam \<in> set (h ! a) then h ! a else h ! a @ [lam]] @ [lambda_energy s]"
  using assms
  by (cases ref)
    (auto simp: Dynamics_init_def energy_lambdas_Some energy_lambdas_None nth_append
          split: if_splits prod.splits sum.splits)

lemma Dynamics_init_example:
  "Dynamics_init [[0.5]] True 0 0 [0] (Some 0) example_config 0.001 None True =
     (Inr \<lparr>config_of = example_config, current_block = 0, lambda_val = 0,
           lambda_array = [0], lambda_energy = [0, 0.5], increment = 0.001,
           device = None, has_space = True, lambda_grad = None, loop_x = None,
           trace = []\<rparr>,
      example_config, [[0.5], [0.5, 0], [0, 0.5]])"
  by (simp add: Dynamics_init_def restart_setup_def example_config_def energy_lambdas_Some)

text \<open>
  C8 (as amended). Whenever the constructor returns a session for the caller's list at
  reference \<open>a\<close>, the stored energy-sample list is sorted in ascending order, contains
  the window's own lambda, and holds the elements of the caller's list with their
  multiplicities, plus the window's lambda when the caller's list lacks it. So the stored
  list is free of duplicates exactly when the caller's list is: the constructor adds no
  duplicate and removes none.
\<close>

theorem lambda_energy_sorted_with_own_lambda:
  assumes "Dynamics_init h p t lam arr (Some a) cfg incr dev space = (Inr s, cfg', h')"
  shows "sorted (lambda_energy s) \<and> lam \<in> set (lambda_energy s) \<and>
     mset (lambda_energy s) = mset (h ! a) + (if lam \<in> set (h ! a) then {#} else {#lam#}) \<and>
     distinct (lambda_energy s) = distinct (h ! a)"
  using Dynamics_init_Inr[OF assms] by auto

theorem lambda_energy_sorted_with_own_lambda_witness:
  "Dynamics_init [[0.5]] True 0 0 [0] (Some 0) example_config 0.001 None True =
     (Inr \<lparr>config_of = example_config, current_block = 0, lambda_val = 0,
           lambda_array = [0], lambda_energy = [0, 0.5], increment = 0.001,
           device = None, has_space = True, lambda_grad = None, loop_x = None,
           trace = []\<rparr>,
      example_config, [[0.5], [0.5, 0], [0, 0.5]]) \<and>
   sorted [0, 0.5::real] \<and> (0::real) \<in> set [0, 0.5] \<and> distinct [0, 0.5::real]"
  using lambda_energy_sorted_with_own_lambda[OF Dynamics_init_example] Dynamics_init_example
  by simp

text \<open>
  C8 as stated fails for a caller's list with a repeated value: for the list
  \<open>[0.5, 0.5]\<close> and lambda 0 the stored list is \<open>[0, 0.5, 0.5]\<close>.
\<close>

theorem lambda_energy_keeps_duplicates:
  "map_sum id lambda_energy
     (fst (Dynamics_init [[0.5, 0.5]] True 0 0 [0] (Some 0) example_config 0.001 None True)) =
     Inr [0, 0.5, 0.5] \<and>
   \<not> distinct [0, 0.5, 0.5::real]"
  by (simp add: Dynamics_init_def restart_setup_def example_config_def energy_lambdas_Some)

text \<open>
  C10. The constructor never changes a list that existed before the call: on every path,
  raising or not, each list object of the heap before the call, the caller's
  \<^verbatim>\<open>lambda_energy\<close> among them, has the same elements after it. The append goes to the
  copy.
\<close>

theorem constructor_leaves_callers_list:
  "b < length h \<Longrightarrow>
     snd (snd (Dynamics_init h p t lam arr ref cfg incr dev space)) ! b = h ! b"
  by (cases ref)
    (auto simp: Dynamics_init_def energy_lambdas_Some energy_lambdas_None nth_append
          split: prod.splits sum.splits)

theorem constructor_leaves_callers_list_witness:
  "(0::nat) < length [[0.5::real]] \<and>
   snd (snd (Dynamics_init [[0.5]] True 0 0 [0] (Some 0) example_config 0.001 None True)) ! 0 =
     [0.5]"
  using constructor_leaves_callers_list
          [of 0 "[[0.5]]" True 0 0 "[0]" "Some 0" example_config "0.001" None True]
  by simp

subsection \<open>The number of workers\<close>

lemma length_zero_cuda_devices [simp]: "length (zero_cuda_devices ds) = length ds"
  by (simp add: zero_cuda_devices_def)

text \<open>
  C7 (as amended). In parallel dispatch with at least one window and at least one
  configured thread: on the cpu platform the number of workers is
  \<open>min max_threads num_lambda\<close> and each worker is allotted
  \<open>max_threads div workers\<close> threads (floor division); on the cuda platform the number
  of workers is the size of the device pool, that is the number of visible devices cut
  to \<^verbatim>\<open>max_gpus\<close> when that is set, whatever the number of windows, and the extra
  arguments are empty.
\<close>

theorem parallel_workers:
  assumes "1 \<le> n" and "1 \<le> max_threads (r_config r)"
    and "platform (r_config r) = ''cpu'' \<or> (platform (r_config r) = ''cuda'' \<and> env = Some ds)"
  shows "fst (parallel_setup env n r) = None \<and>
     max_workers (snd (parallel_setup env n r)) =
       Some (if platform (r_config r) = ''cpu'' then min (max_threads (r_config r)) n
             else int (length (case max_gpus (r_config r) of
                                 None \<Rightarrow> ds | Some k \<Rightarrow> py_slice_to ds k))) \<and>
     extra_args (r_config (snd (parallel_setup env n r))) =
       (if platform (r_config r) = ''cpu''
        then [(''threads'', max_threads (r_config r) div min (max_threads (r_config r)) n)]
        else [])"
  using assms
  by (auto simp: parallel_setup_def create_shared_resources_def get_cuda_devices_def
        set_extra_args_def min_def Let_def split: option.splits)

theorem parallel_workers_witness:
  "(1::int) \<le> 3 \<and> (1::int) \<le> 4 \<and>
   fst (parallel_setup None 3 (example_runner (example_config\<lparr>run_parallel := True\<rparr>))) = None \<and>
   max_workers (snd (parallel_setup None 3
      (example_runner (example_config\<lparr>run_parallel := True\<rparr>)))) = Some 3 \<and>
   extra_args (r_config (snd (parallel_setup None 3
      (example_runner (example_config\<lparr>run_parallel := True\<rparr>))))) = [(''threads'', 1)]"
  using parallel_workers
          [of 3 "example_runner (example_config\<lparr>run_parallel := True\<rparr>)" None "[]"]
  by (simp add: example_runner_def example_config_def)

text \<open>
  C7 as stated fails on the cuda platform with more devices than windows: with four
  visible devices and two windows the number of workers is four, not two.
\<close>

theorem gpu_workers_ignore_num_lambda:
  "max_workers (snd (parallel_setup (Some [''0'', ''1'', ''2'', ''3'']) 2
     (example_runner (example_config\<lparr>run_parallel := True, platform := ''cuda''\<rparr>)))) = Some 4 \<and>
   min (int (length [''0'', ''1'', ''2'', ''3''])) 2 = 2"
  by (simp add: parallel_setup_def create_shared_resources_def get_cuda_devices_def
        set_extra_args_def example_runner_def example_config_def zero_cuda_devices_def)

subsection \<open>The production run\<close>

lemma emits_call: "emits (call w ev) s [ev]"
  by (auto simp: emits_def call_def split: option.splits)

lemma emits_skip: "emits skip s []"
  by (simp add: emits_def skip_def)

lemma emits_and_then:
  assumes "emits f s E1" and "\<And>s'. f s = (None, s') \<Longrightarrow> emits g s' E2"
  shows "emits (and_then f g) s (E1 @ E2)"
proof (cases "f s")
  case (Pair e s')
  show ?thesis
  proof (cases e)
    case None
    with Pair assms(1) have t: "trace s' = trace s @ E1" by (simp add: emits_def)
    from assms(2) Pair None have g: "emits g s' E2" by simp
    have eq: "and_then f g s = g s'" using Pair None by (simp add: and_then_def)
    from g t show ?thesis
      unfolding emits_def eq by (auto split: if_splits)
  next
    case (Some ex)
    with Pair assms(1) show ?thesis
      by (auto simp: emits_def and_then_def)
  qed
qed

lemma emits_only_if:
  "emits f s E \<Longrightarrow> emits (only_if b f) s (if b then E else [])"
  by (simp add: only_if_def emits_skip)

lemma frame_call [simp]: "frame (snd (call w ev s)) = frame s"
  by (simp add: frame_def call_def)

lemma loop_x_call [simp]: "loop_x (snd (call w ev s)) = loop_x s"
  by (simp add: call_def)

lemma and_then_keeps:
  assumes "\<And>s. K (snd (f s)) = K s" and "\<And>s. K (snd (g s)) = K s"
  shows "K (snd (and_then f g s)) = K s"
proof (cases "f s")
  case (Pair e s')
  then show ?thesis using assms(1)[of s] assms(2)[of s']
    by (cases e) (auto simp: and_then_def)
qed

lemma only_if_keeps:
  assumes "\<And>s. K (snd (f s)) = K s"
  shows "K (snd (only_if b f s)) = K s"
  using assms by (simp add: only_if_def skip_def)

lemma seq_keeps:
  assumes "\<And>f s. f \<in> set fs \<Longrightarrow> K (snd (f s)) = K s"
  shows "K (snd (seq fs s)) = K s"
  using assms
proof (induction fs arbitrary: s)
  case Nil
  show ?case by (simp add: skip_def)
next
  case (Cons f fs)
  show ?case
    unfolding seq.simps
    by (rule and_then_keeps) (use Cons in auto)
qed

lemma emits_seq2: "emits f s E1 \<Longrightarrow> (\<And>s'. f s = (None, s') \<Longrightarrow> emits (seq fs) s' E2) \<Longrightarrow> emits (seq (f # fs)) s (E1 @ E2)"
  unfolding seq.simps by (rule emits_and_then)

lemma emits_calls: "emits (seq (map (call w) evs)) s evs"
proof (induction evs arbitrary: s)
  case Nil
  show ?case by (simp add: emits_skip)
next
  case (Cons ev evs)
  have "emits (seq (call w ev # map (call w) evs)) s ([ev] @ evs)"
    by (rule emits_seq2) (rule emits_call, rule Cons.IH)
  then show ?case by simp
qed

lemma calls_keeps:
  assumes "\<And>ev s. K (snd (call w ev s)) = K s"
  shows "K (snd (seq (map (call w) evs) s)) = K s"
  by (rule seq_keeps) (use assms in auto)

text \<open>The block body is a sequence of calls followed by the assignment to x.\<close>

lemma and_then_skip [simp]: "and_then f skip = f"
  by (auto simp: and_then_def skip_def fun_eq_iff split: prod.splits option.splits)

lemma and_then_assoc: "and_then (and_then f g) h = and_then f (and_then g h)"
  by (auto simp: and_then_def fun_eq_iff split: prod.splits option.splits)

lemma skip_and_then [simp]: "and_then skip f = f"
  by (auto simp: and_then_def skip_def fun_eq_iff)

lemma block_body_alt:
  "block_body w i s =
     and_then (seq (map (call w) (body_events (config_of s) (current_block s) i)))
       (\<lambda>t. (None, t\<lparr>loop_x := Some (body_index (current_block s) i)\<rparr>)) (s\<lparr>loop_x := Some (i + current_block s)\<rparr>)"
  by (simp add: block_body_def body_events_def body_index_def Let_def only_if_def and_then_assoc)

lemma frame_loop_x [simp]: "frame (s\<lparr>loop_x := v\<rparr>) = frame s" "trace (s\<lparr>loop_x := v\<rparr>) = trace s"
  by (simp_all add: frame_def)

lemma emits_assign: "emits (\<lambda>t. (None, t\<lparr>loop_x := v\<rparr>)) s []"
  by (simp add: emits_def)

lemma emits_block_body: "emits (block_body w i) s (body_events (config_of s) (current_block s) i)"
proof -
  have "emits (and_then (seq (map (call w) (body_events (config_of s) (current_block s) i)))
       (\<lambda>t. (None, t\<lparr>loop_x := Some (body_index (current_block s) i)\<rparr>))) (s\<lparr>loop_x := Some (i + current_block s)\<rparr>)
       (body_events (config_of s) (current_block s) i @ [])"
    by (rule emits_and_then) (rule emits_calls, rule emits_assign)
  then show ?thesis
    by (auto simp: block_body_alt emits_def split: if_splits)
qed

lemma frame_block_body [simp]: "frame (snd (block_body w i s)) = frame s"
proof -
  let ?s0 = "s\<lparr>loop_x := Some (i + current_block s)\<rparr>"
  have "frame (snd (and_then (seq (map (call w) (body_events (config_of s) (current_block s) i)))
       (\<lambda>t. (None, t\<lparr>loop_x := Some (body_index (current_block s) i)\<rparr>)) ?s0)) = frame ?s0"
    by (rule and_then_keeps) (simp_all add: calls_keeps)
  then show ?thesis by (simp add: block_body_alt)
qed

lemma loop_x_block_body:
  "block_body w i s = (None, s') \<Longrightarrow> loop_x s' = Some (body_index (current_block s) i)"
  by (auto simp: block_body_alt and_then_def split: prod.splits option.splits)

lemma emits_block_loop:
  "emits (block_loop w is) s (concat (map (body_events (config_of s) (current_block s)) is))"
proof (induction "is" arbitrary: s)
  case Nil
  show ?case by (simp add: emits_skip)
next
  case (Cons i "is")
  show ?case
    unfolding block_loop.simps list.map concat.simps
  proof (rule emits_and_then)
    show "emits (block_body w i) s (body_events (config_of s) (current_block s) i)"
      by (rule emits_block_body)
  next
    fix s' assume a: "block_body w i s = (None, s')"
    have "frame s' = frame s" using frame_block_body[of w i s] a by simp
    then have "config_of s' = config_of s" "current_block s' = current_block s"
      by (simp_all add: frame_def)
    with Cons.IH[of s'] show "emits (block_loop w is) s' (concat (map (body_events (config_of s) (current_block s)) is))"
      by simp
  qed
qed

lemma frame_block_loop [simp]: "frame (snd (block_loop w is s)) = frame s"
proof (induction "is" arbitrary: s)
  case Nil show ?case by (simp add: skip_def)
next
  case (Cons i "is")
  show ?case unfolding block_loop.simps
    by (rule and_then_keeps) (simp_all add: Cons)
qed

lemma loop_x_block_loop:
  "block_loop w is s = (None, s') \<Longrightarrow>
     loop_x s' = (if is = [] then loop_x s else Some (body_index (current_block s) (last is)))"
proof (induction "is" arbitrary: s)
  case Nil then show ?case by (simp add: skip_def)
next
  case (Cons i "is")
  from Cons.prems obtain s1 where b: "block_body w i s = (None, s1)" and l: "block_loop w is s1 = (None, s')"
    by (auto simp: and_then_def split: prod.splits option.splits)
  have "frame s1 = frame s" using frame_block_body[of w i s] b by simp
  then have cb: "current_block s1 = current_block s" by (simp add: frame_def)
  from Cons.IH[OF l] loop_x_block_body[OF b] cb show ?case by simp
qed

lemma remainder_block_alt:
  "loop_x s = Some x0 \<Longrightarrow>
     remainder_block w rem s =
       seq (map (call w) (remainder_events (config_of s) (x0 + 1) rem)) (s\<lparr>loop_x := Some (x0 + 1)\<rparr>)"
  by (simp add: remainder_block_def remainder_events_def Let_def only_if_def and_then_assoc)

lemma emits_remainder_block:
  assumes "loop_x s = Some x0"
  shows "emits (remainder_block w rem) s (remainder_events (config_of s) (x0 + 1) rem)"
proof -
  have "emits (seq (map (call w) (remainder_events (config_of s) (x0 + 1) rem))) (s\<lparr>loop_x := Some (x0 + 1)\<rparr>)
          (remainder_events (config_of s) (x0 + 1) rem)"
    by (rule emits_calls)
  then show ?thesis
    by (auto simp: remainder_block_alt[OF assms] emits_def split: if_splits)
qed

lemma frame_remainder_block [simp]: "frame (snd (remainder_block w rem s)) = frame s"
proof (cases "loop_x s")
  case None
  then show ?thesis by (simp add: remainder_block_def)
next
  case (Some x0)
  have "frame (snd (seq (map (call w) (remainder_events (config_of s) (x0 + 1) rem)) (s\<lparr>loop_x := Some (x0 + 1)\<rparr>)))
     = frame (s\<lparr>loop_x := Some (x0 + 1)\<rparr>)"
    by (rule calls_keeps) simp
  then show ?thesis by (simp add: remainder_block_alt[OF Some])
qed

lemma py_range_nonempty: "1 \<le> n \<Longrightarrow> py_range n \<noteq> []"
  by (simp add: py_range_def)

lemma py_int_ge_one: "1 \<le> x \<Longrightarrow> 1 \<le> py_int x"
  by (simp add: py_int_def le_floor_iff)

lemma frame_config_update [simp]: "trace (s\<lparr>config_of := c\<rparr>) = trace s" "loop_x (s\<lparr>config_of := c\<rparr>) = loop_x s"
  by simp_all

lemma emits_production:
  assumes "0 < checkpoint_frequency (config_of s)"
  shows "emits (production fdiv w) s (production_plan fdiv (config_of s) (current_block s))"
proof -
  let ?cfg = "config_of s"
  let ?quot = "fdiv (runtime ?cfg) (checkpoint_frequency ?cfg)"
  let ?frac = "if ?quot < 1 then 1 else ?quot"
  let ?cfg' = "if ?quot < 1 then ?cfg\<lparr>checkpoint_frequency := runtime ?cfg\<rparr> else ?cfg"
  let ?nb = "py_int ?frac"
  let ?rem = "?frac - of_int ?nb"
  let ?s1 = "s\<lparr>config_of := ?cfg'\<rparr>"
  let ?x = "body_index (current_block s) (last (py_range ?nb))"
  have nb: "1 \<le> ?nb" by (rule py_int_ge_one) simp
  have ne: "py_range ?nb \<noteq> []" by (rule py_range_nonempty[OF nb])
  have p: "production fdiv w s =
      and_then (block_loop w (py_range ?nb)) (only_if (?rem > 0) (remainder_block w ?rem)) ?s1"
    using assms by (simp add: production_def Let_def)
  have plan: "production_plan fdiv ?cfg (current_block s) =
      concat (map (body_events ?cfg' (current_block s)) (py_range ?nb)) @
      (if ?rem > 0 then remainder_events ?cfg' (?x + 1) ?rem else [])"
    by (simp add: production_plan_def Let_def)
  have s1c: "config_of ?s1 = ?cfg'" "current_block ?s1 = current_block s"
    by simp_all
  have tr: "trace ?s1 = trace s" by simp
  have "emits (and_then (block_loop w (py_range ?nb)) (only_if (?rem > 0) (remainder_block w ?rem))) ?s1
     (concat (map (body_events ?cfg' (current_block s)) (py_range ?nb)) @
      (if ?rem > 0 then remainder_events ?cfg' (?x + 1) ?rem else []))"
  proof (rule emits_and_then)
    show "emits (block_loop w (py_range ?nb)) ?s1
            (concat (map (body_events ?cfg' (current_block s)) (py_range ?nb)))"
      using emits_block_loop[of w "py_range ?nb" ?s1] unfolding s1c .
  next
    fix s' assume a: "block_loop w (py_range ?nb) ?s1 = (None, s')"
    have "frame s' = frame ?s1" using frame_block_loop[of w "py_range ?nb" ?s1] a by simp
    then have c: "config_of s' = ?cfg'" by (simp add: frame_def)
    have "loop_x s' = (if py_range ?nb = [] then loop_x ?s1
                       else Some (body_index (current_block ?s1) (last (py_range ?nb))))"
      by (rule loop_x_block_loop[OF a])
    then have lx: "loop_x s' = Some ?x" using ne unfolding s1c by simp
    have "emits (only_if (?rem > 0) (remainder_block w ?rem)) s'
            (if ?rem > 0 then remainder_events (config_of s') (?x + 1) ?rem else [])"
      by (rule emits_only_if[OF emits_remainder_block[OF lx]])
    then show "emits (only_if (?rem > 0) (remainder_block w ?rem)) s'
            (if ?rem > 0 then remainder_events ?cfg' (?x + 1) ?rem else [])"
      unfolding c .
  qed
  then show ?thesis
    unfolding plan emits_def p tr .
qed

lemma block_steps_append: "block_steps (xs @ ys) = block_steps xs @ block_steps ys"
  by (induction xs rule: block_steps.induct) auto

lemma block_runs_append: "block_runs (xs @ ys) = block_runs xs @ block_runs ys"
  by (induction xs rule: block_runs.induct) auto

lemma block_steps_body [simp]:
  "block_steps (body_events cfg cb i) = [Run (checkpoint_frequency cfg), Checkpoint]"
  by (simp add: body_events_def Let_def)

lemma block_steps_remainder [simp]: "block_steps (remainder_events cfg x rem) = [Run rem]"
  by (simp add: remainder_events_def)

lemma block_runs_body [simp]:
  "block_runs (body_events cfg cb i) = [(i + cb, checkpoint_frequency cfg)]"
  by (simp add: body_events_def Let_def)

lemma block_runs_remainder [simp]: "block_runs (remainder_events cfg x rem) = [(x, rem)]"
  by (simp add: remainder_events_def)

lemma block_steps_bodies:
  "block_steps (concat (map (body_events cfg cb) is)) =
     concat (replicate (length is) [Run (checkpoint_frequency cfg), Checkpoint])"
  by (induction "is") (simp_all add: block_steps_append)

lemma block_runs_bodies:
  "block_runs (concat (map (body_events cfg cb) is)) = map (\<lambda>i. (i + cb, checkpoint_frequency cfg)) is"
  by (induction "is") (simp_all add: block_runs_append)

lemma prefix_block_steps: "prefix p E \<Longrightarrow> prefix (block_steps p) (block_steps E)"
  by (auto simp: prefix_def block_steps_append)

lemma prefix_block_runs: "prefix p E \<Longrightarrow> prefix (block_runs p) (block_runs E)"
  by (auto simp: prefix_def block_runs_append)

lemma length_py_range [simp]: "length (py_range n) = nat n"
  by (simp add: py_range_def)

lemma py_int_floor: "0 \<le> x \<Longrightarrow> py_int x = \<lfloor>x\<rfloor>"
  by (simp add: py_int_def)

lemma block_steps_plan:
  "block_steps (production_plan fdiv cfg cb) =
     quotient_steps (fdiv (runtime cfg) (checkpoint_frequency cfg)) (runtime cfg)
       (checkpoint_frequency cfg)"
proof (cases "fdiv (runtime cfg) (checkpoint_frequency cfg) < 1")
  case True
  then show ?thesis
    by (simp add: production_plan_def quotient_steps_def Let_def block_steps_append
          block_steps_bodies py_int_def)
next
  case False
  then have "0 \<le> fdiv (runtime cfg) (checkpoint_frequency cfg)" by simp
  then have pi: "py_int (fdiv (runtime cfg) (checkpoint_frequency cfg)) =
      \<lfloor>fdiv (runtime cfg) (checkpoint_frequency cfg)\<rfloor>"
    by (rule py_int_floor)
  show ?thesis using False
    by (simp add: production_plan_def quotient_steps_def Let_def block_steps_append
          block_steps_bodies pi)
qed

lemma quotient_steps_exact:
  "0 < c \<Longrightarrow> quotient_steps (r / c) r c = spec_steps r c"
  by (simp add: quotient_steps_def spec_steps_def)

lemma emits_prefix:
  "emits f s E \<Longrightarrow> \<exists>p. trace (snd (f s)) = trace s @ p \<and> prefix p E"
  by (auto simp: emits_def split: if_splits)

lemma emits_None: "emits f s E \<Longrightarrow> fst (f s) = None \<Longrightarrow> trace (snd (f s)) = trace s @ E"
  by (auto simp: emits_def split: if_splits)

lemma call_calm [simp]: "fst (call calm ev s) = None"
  by (simp add: call_def calm_def)

lemma and_then_None:
  "fst (f s) = None \<Longrightarrow> fst (g (snd (f s))) = None \<Longrightarrow> fst (and_then f g s) = None"
  by (cases "f s") (auto simp: and_then_def)

lemma calls_calm [simp]: "fst (seq (map (call calm) evs) s) = None"
proof (induction evs arbitrary: s)
  case Nil show ?case by (simp add: skip_def)
next
  case (Cons ev evs)
  show ?case unfolding list.map seq.simps
    by (rule and_then_None) (simp_all add: Cons)
qed

lemma block_body_calm [simp]: "fst (block_body calm i s) = None"
  unfolding block_body_alt by (rule and_then_None) simp_all

lemma block_loop_calm [simp]: "fst (block_loop calm is s) = None"
proof (induction "is" arbitrary: s)
  case Nil show ?case by (simp add: skip_def)
next
  case (Cons i "is")
  show ?case unfolding block_loop.simps
    by (rule and_then_None) (simp_all add: Cons)
qed

lemma remainder_block_calm: "loop_x s = Some x0 \<Longrightarrow> fst (remainder_block calm rem s) = None"
  by (simp add: remainder_block_alt)

lemma production_calm:
  assumes "0 < checkpoint_frequency (config_of s)"
  shows "fst (production fdiv calm s) = None"
proof -
  let ?cfg = "config_of s"
  let ?quot = "fdiv (runtime ?cfg) (checkpoint_frequency ?cfg)"
  let ?frac = "if ?quot < 1 then 1 else ?quot"
  let ?cfg' = "if ?quot < 1 then ?cfg\<lparr>checkpoint_frequency := runtime ?cfg\<rparr> else ?cfg"
  let ?nb = "py_int ?frac"
  let ?rem = "?frac - of_int ?nb"
  let ?s1 = "s\<lparr>config_of := ?cfg'\<rparr>"
  have nb: "1 \<le> ?nb" by (rule py_int_ge_one) simp
  have ne: "py_range ?nb \<noteq> []" by (rule py_range_nonempty[OF nb])
  have p: "production fdiv calm s =
      and_then (block_loop calm (py_range ?nb)) (only_if (?rem > 0) (remainder_block calm ?rem)) ?s1"
    using assms by (simp add: production_def Let_def)
  obtain s' where a: "block_loop calm (py_range ?nb) ?s1 = (None, s')"
    using block_loop_calm[of "py_range ?nb" ?s1] by (cases "block_loop calm (py_range ?nb) ?s1") auto
  have "loop_x s' = (if py_range ?nb = [] then loop_x ?s1
                       else Some (body_index (current_block ?s1) (last (py_range ?nb))))"
    by (rule loop_x_block_loop[OF a])
  then obtain x0 where lx: "loop_x s' = Some x0" using ne by simp
  have "fst (only_if (?rem > 0) (remainder_block calm ?rem) s') = None"
    using remainder_block_calm[OF lx] by (simp add: only_if_def skip_def)
  then have "fst (and_then (block_loop calm (py_range ?nb)) (only_if (?rem > 0) (remainder_block calm ?rem)) ?s1) = None"
    using a by (intro and_then_None) simp_all
  then show ?thesis unfolding p .
qed

lemma config_of_production:
  "config_of (snd (production fdiv w s)) =
     (if 0 < checkpoint_frequency (config_of s) \<and>
         fdiv (runtime (config_of s)) (checkpoint_frequency (config_of s)) < 1
      then (config_of s)\<lparr>checkpoint_frequency := runtime (config_of s)\<rparr> else config_of s)"
proof (cases "0 < checkpoint_frequency (config_of s)")
  case False
  have "frame (snd (seq (map (call w) [Dyn_run_whole (checkpoint_frequency (config_of s)), Commit]) s)) = frame s"
    by (rule calls_keeps) simp
  with False show ?thesis by (simp add: production_def Let_def frame_def)
next
  case True
  let ?cfg = "config_of s"
  let ?quot = "fdiv (runtime ?cfg) (checkpoint_frequency ?cfg)"
  let ?frac = "if ?quot < 1 then 1 else ?quot"
  let ?cfg' = "if ?quot < 1 then ?cfg\<lparr>checkpoint_frequency := runtime ?cfg\<rparr> else ?cfg"
  let ?nb = "py_int ?frac"
  let ?rem = "?frac - of_int ?nb"
  let ?s1 = "s\<lparr>config_of := ?cfg'\<rparr>"
  have p: "production fdiv w s =
      and_then (block_loop w (py_range ?nb)) (only_if (?rem > 0) (remainder_block w ?rem)) ?s1"
    using True by (simp add: production_def Let_def)
  have "frame (snd (and_then (block_loop w (py_range ?nb)) (only_if (?rem > 0) (remainder_block w ?rem)) ?s1)) = frame ?s1"
    by (rule and_then_keeps) (simp_all add: only_if_keeps)
  then have "config_of (snd (production fdiv w s)) = ?cfg'"
    unfolding p by (simp add: frame_def)
  with True show ?thesis by simp
qed

lemma production_steps:
  assumes "0 < checkpoint_frequency (config_of s)"
  shows "fst (production fdiv calm s) = None \<and>
     block_steps (trace (snd (production fdiv calm s))) =
       block_steps (trace s) @
       quotient_steps (fdiv (runtime (config_of s)) (checkpoint_frequency (config_of s)))
         (runtime (config_of s)) (checkpoint_frequency (config_of s)) \<and>
     prefix (block_steps (trace (snd (production fdiv w s))))
       (block_steps (trace s) @
        quotient_steps (fdiv (runtime (config_of s)) (checkpoint_frequency (config_of s)))
          (runtime (config_of s)) (checkpoint_frequency (config_of s)))"
proof -
  let ?plan = "production_plan fdiv (config_of s) (current_block s)"
  have ok: "fst (production fdiv calm s) = None" by (rule production_calm[OF assms])
  have "trace (snd (production fdiv calm s)) = trace s @ ?plan"
    by (rule emits_None[OF emits_production[OF assms] ok])
  then have steps: "block_steps (trace (snd (production fdiv calm s))) =
       block_steps (trace s) @
       quotient_steps (fdiv (runtime (config_of s)) (checkpoint_frequency (config_of s)))
         (runtime (config_of s)) (checkpoint_frequency (config_of s))"
    by (simp add: block_steps_append block_steps_plan)
  obtain p where p: "trace (snd (production fdiv w s)) = trace s @ p" "prefix p ?plan"
    using emits_prefix[OF emits_production[OF assms, of fdiv w]] by auto
  have pre: "prefix (block_steps (trace (snd (production fdiv w s))))
       (block_steps (trace s) @
        quotient_steps (fdiv (runtime (config_of s)) (checkpoint_frequency (config_of s)))
          (runtime (config_of s)) (checkpoint_frequency (config_of s)))"
    using prefix_block_steps[OF p(2)] by (simp add: p(1) block_steps_append block_steps_plan)
  from ok steps pre show ?thesis by simp
qed

subsection \<open>Devices and failing windows\<close>

text \<open>
  The call of the constructor at lines 258-265 leaves the required argument
  \<^verbatim>\<open>lambda_energy\<close> out, so \<^verbatim>\<open>_initialise_simulation\<close> raises a TypeError
  for every window, after logging the warning.
\<close>

lemma log_line_fields [simp]:
  "r_config (log_line m r) = r_config r"
  "gpu_pool (log_line m r) = gpu_pool r"
  "sim (log_line m r) = sim r"
  "logged (log_line m r) = logged r @ [m]"
  "lambda_values (log_line m r) = lambda_values r"
  by (simp_all add: log_line_def)

lemma initialise_simulation_raises:
  "initialise_simulation lam dev r = (Some TypeError, log_line (Warning_creation_failed lam) r)"
  by (simp add: initialise_simulation_def Dynamics_call_def)

lemma Runner_run_window_cpu:
  "platform (r_config r) = ''cpu'' \<Longrightarrow>
     Runner_run_window fdiv w lam r =
       (Inl TypeError, log_line (Warning_creation_failed lam) (log_line (Info_running lam) r))"
  by (simp add: Runner_run_window_def Let_def initialise_simulation_raises)

lemma every_window_loses_its_device:
  assumes "platform (r_config r) = ''cuda''" and "run_parallel (r_config r)"
    and "gpu_pool r = Some (g # rest)"
  shows "fst (Runner_run_window fdiv w lam r) = Inl TypeError \<and>
     gpu_pool (snd (Runner_run_window fdiv w lam r)) = Some rest"
  using assms
  by (simp add: Runner_run_window_def Let_def initialise_simulation_raises acquire_gpu_def
        remove_gpu_from_pool_def)

text \<open>
  C3 (the code at a failing input). Parallel cuda dispatch with a pool holding the single
  device 0: \<^verbatim>\<open>run_window\<close> takes the device from the pool and calls
  \<^verbatim>\<open>_initialise_simulation\<close> at line 409, outside the \<^verbatim>\<open>try\<close> of line 410.
  The constructor call raises, the exception leaves \<^verbatim>\<open>run_window\<close> and the pool
  stays empty, whatever the engine does.
\<close>

theorem failing_constructor_loses_device:
  "gpu_pool (example_runner (example_config\<lparr>run_parallel := True, platform := ''cuda''\<rparr>)
              \<lparr>gpu_pool := Some [0]\<rparr>) = Some [0] \<and>
   fst (Runner_run_window fdiv w 0
          (example_runner (example_config\<lparr>run_parallel := True, platform := ''cuda''\<rparr>)
              \<lparr>gpu_pool := Some [0]\<rparr>)) = Inl TypeError \<and>
   gpu_pool (snd (Runner_run_window fdiv w 0
          (example_runner (example_config\<lparr>run_parallel := True, platform := ''cuda''\<rparr>)
              \<lparr>gpu_pool := Some [0]\<rparr>))) = Some []"
  by (simp add: Runner_run_window_def Let_def initialise_simulation_raises acquire_gpu_def
        remove_gpu_from_pool_def example_runner_def example_config_def)

text \<open>
  C2 (the code at a failing input). Sequential dispatch of the two windows at lambda 0
  and 1: the window at lambda 0 raises, the exception leaves \<^verbatim>\<open>run\<close>, which
  returns no list, and the window at lambda 1 is never started; the log holds the lines
  of the window at lambda 0 only.
\<close>

theorem sequential_run_propagates_window_failure:
  "fst (Runner_run fdiv w None (example_runner example_config)) = Inl TypeError \<and>
   logged (snd (Runner_run fdiv w None (example_runner example_config))) =
     [Info_running 0, Warning_creation_failed 0]"
  by (simp add: Runner_run_def lambda_grid_def py_range_def py_round_def round_half_even_def
        Runner_run_window_def Let_def initialise_simulation_raises example_runner_def
        example_config_def set_extra_args_def upt_rec)

subsection \<open>The float quotient\<close>

lemma double_div_values:
  "double_div (5 / 2) 1 = 5 / 2"
  "double_div double_0_3 double_0_1 = 3 - 1 / 2 ^ 51"
  by (simp_all add: double_div_def round_double_def binade_def bits.simps round_half_even_def
        power_int_minus double_0_3_def double_0_1_def)

lemma double_literals:
  "round_double 0.3 = double_0_3" "round_double 0.1 = double_0_1"
  by (simp_all add: round_double_def binade_def bits.simps round_half_even_def
        power_int_minus double_0_3_def double_0_1_def)

lemma double_div_half:
  "double_div (1 / 2) double_0_1 = 5"
  by (simp add: double_div_def round_double_def binade_def bits.simps round_half_even_def
        power_int_minus double_0_1_def)

text \<open>
  C6 (the code at a failing input). A runtime of 0.3 with a checkpoint frequency of 0.1:
  the quotient of the two doubles at line 397 is \<open>3 - 1 / 2 ^ 51\<close>, so the loop runs two
  checkpointed blocks and then a last run of length \<open>1 - 1 / 2 ^ 51\<close> with no checkpoint
  write, where the claim has three checkpointed blocks and no remainder. A runtime of 0.5
  with the double nearest to 0.1, taken as the number it is: the float quotient is 5, so
  the loop runs five checkpointed blocks and no remainder, where \<open>floor (r / c)\<close> is 4 and
  the remainder is positive.
\<close>

theorem float_quotient_loses_a_block:
  "round_double 0.3 = double_0_3 \<and> round_double 0.1 = double_0_1 \<and>
   double_div double_0_3 double_0_1 = 3 - 1 / 2 ^ 51 \<and>
   fst (production double_div calm
     (example_session
        (example_config\<lparr>runtime := double_0_3, checkpoint_frequency := double_0_1\<rparr>) 0)) = None \<and>
   block_steps (trace (snd (production double_div calm
     (example_session
        (example_config\<lparr>runtime := double_0_3, checkpoint_frequency := double_0_1\<rparr>) 0)))) =
     [Run double_0_1, Checkpoint, Run double_0_1, Checkpoint, Run (1 - 1 / 2 ^ 51)] \<and>
   spec_steps 0.3 0.1 = [Run 0.1, Checkpoint, Run 0.1, Checkpoint, Run 0.1, Checkpoint] \<and>
   round_double 0.5 = 1 / 2 \<and> double_div (1 / 2) double_0_1 = 5 \<and>
   block_steps (trace (snd (production double_div calm
     (example_session
        (example_config\<lparr>runtime := 1 / 2, checkpoint_frequency := double_0_1\<rparr>) 0)))) =
     [Run double_0_1, Checkpoint, Run double_0_1, Checkpoint, Run double_0_1, Checkpoint,
      Run double_0_1, Checkpoint, Run double_0_1, Checkpoint] \<and>
   spec_steps (1 / 2) double_0_1 =
     [Run double_0_1, Checkpoint, Run double_0_1, Checkpoint, Run double_0_1, Checkpoint,
      Run double_0_1, Checkpoint, Run (1 - 1 / 3602879701896397)]"
proof -
  let ?s = "example_session
        (example_config\<lparr>runtime := double_0_3, checkpoint_frequency := double_0_1\<rparr>) 0"
  let ?t = "example_session
        (example_config\<lparr>runtime := 1 / 2, checkpoint_frequency := double_0_1\<rparr>) 0"
  have five: "(5::nat) = Suc (Suc (Suc (Suc (Suc 0))))" and four: "(4::nat) = Suc (Suc (Suc (Suc 0)))"
    by simp_all
  have c: "0 < checkpoint_frequency (config_of ?s)" "0 < checkpoint_frequency (config_of ?t)"
    by (simp_all add: example_session_def double_0_1_def)
  have q: "quotient_steps (double_div double_0_3 double_0_1) double_0_3 double_0_1 =
      [Run double_0_1, Checkpoint, Run double_0_1, Checkpoint, Run (1 - 1 / 2 ^ 51)]"
    by (subst double_div_values(2)) (simp add: quotient_steps_def numeral_2_eq_2)
  have q5: "quotient_steps (double_div (1 / 2) double_0_1) (1 / 2) double_0_1 =
      [Run double_0_1, Checkpoint, Run double_0_1, Checkpoint, Run double_0_1, Checkpoint,
       Run double_0_1, Checkpoint, Run double_0_1, Checkpoint]"
    by (subst double_div_half) (simp add: quotient_steps_def five)
  have sp: "spec_steps 0.3 0.1 = [Run 0.1, Checkpoint, Run 0.1, Checkpoint, Run 0.1, Checkpoint]"
    by (simp add: spec_steps_def numeral_3_eq_3)
  have sp5: "spec_steps (1 / 2) double_0_1 =
     [Run double_0_1, Checkpoint, Run double_0_1, Checkpoint, Run double_0_1, Checkpoint,
      Run double_0_1, Checkpoint, Run (1 - 1 / 3602879701896397)]"
  proof -
    have fl: "\<lfloor>(1 / 2) / double_0_1\<rfloor> = 4" by (simp add: double_0_1_def)
    have fr: "(1 / 2) / double_0_1 - 4 = 1 - 1 / 3602879701896397" by (simp add: double_0_1_def)
    have lt: "\<not> 1 / 2 < double_0_1" by (simp add: double_0_1_def)
    show ?thesis unfolding spec_steps_def fl using lt fr by (simp add: four)
  qed
  have h: "round_double 0.5 = 1 / 2"
    by (simp add: round_double_def binade_def bits.simps round_half_even_def power_int_minus)
  from production_steps[OF c(1), of double_div calm]
  have a: "fst (production double_div calm ?s) = None"
    "block_steps (trace (snd (production double_div calm ?s))) =
       [Run double_0_1, Checkpoint, Run double_0_1, Checkpoint, Run (1 - 1 / 2 ^ 51)]"
    by (simp_all add: example_session_def q)
  from production_steps[OF c(2), of double_div calm]
  have b: "block_steps (trace (snd (production double_div calm ?t))) =
      [Run double_0_1, Checkpoint, Run double_0_1, Checkpoint, Run double_0_1, Checkpoint,
       Run double_0_1, Checkpoint, Run double_0_1, Checkpoint]"
    by (simp add: example_session_def q5)
  from a b sp sp5 h double_literals double_div_values(2) double_div_half show ?thesis by simp
qed

subsection \<open>Restart\<close>

lemma round_half_even_ge_floor: "\<lfloor>y\<rfloor> \<le> round_half_even y"
  by (simp add: round_half_even_def Let_def)

lemma py_round_ge:
  assumes "of_int m \<le> x"
  shows "of_int m \<le> py_round x nd"
proof -
  have "of_int (m * 10 ^ nd) \<le> x * 10 ^ nd"
    using assms by (simp add: mult_right_mono)
  then have "m * 10 ^ nd \<le> \<lfloor>x * 10 ^ nd\<rfloor>"
    by (simp only: le_floor_iff)
  also have "\<dots> \<le> round_half_even (x * 10 ^ nd)"
    by (rule round_half_even_ge_floor)
  finally have "(of_int (m * 10 ^ nd) :: real) \<le> of_int (round_half_even (x * 10 ^ nd))"
    by (simp only: of_int_le_iff)
  then have "of_int m * 10 ^ nd \<le> (of_int (round_half_even (x * 10 ^ nd)) :: real)"
    by simp
  then show ?thesis
    by (simp add: py_round_def pos_le_divide_eq)
qed

lemma py_int_round_ge:
  assumes "0 \<le> m" and "of_int m \<le> x"
  shows "m \<le> py_int (py_round x nd)"
proof -
  have a: "of_int m \<le> py_round x nd" by (rule py_round_ge[OF assms(2)])
  then have "0 \<le> py_round x nd" using assms(1) by (smt (verit) of_int_nonneg)
  then have "py_int (py_round x nd) = \<lfloor>py_round x nd\<rfloor>" by (simp add: py_int_def)
  with a show ?thesis by (simp add: le_floor_iff)
qed

lemma Dynamics_init_restart:
  assumes "Dynamics_init h p t lam arr ref cfg incr dev space = (Inr s, cfg', h')"
    and "restart cfg"
  shows "cfg' = cfg\<lparr>runtime := runtime cfg - t\<rparr> \<and> config_of s = cfg' \<and>
     current_block s = py_int (py_round (t / checkpoint_frequency cfg) 12) \<and> trace s = []"
  using assms
  by (auto simp: Dynamics_init_def restart_setup_def Let_def
        split: if_splits prod.splits sum.splits)

lemma prefix_map_upt:
  assumes "prefix p (map f [0..<N])"
  shows "p = map f [0..<length p]"
proof -
  from assms have l: "length p \<le> N" using prefix_length_le by fastforce
  from assms have "p = take (length p) (map f [0..<N])"
    by (metis append_eq_conv_conj prefix_def)
  also have "\<dots> = map f [0..<length p]" using l by (simp add: take_map)
  finally show ?thesis .
qed

lemma last_py_range: "1 \<le> n \<Longrightarrow> last (py_range n) = n - 1"
proof -
  assume a: "1 \<le> n"
  then have ne: "[0..<nat n] \<noteq> []" by simp
  have "last (py_range n) = int (last [0..<nat n])"
    unfolding py_range_def by (rule last_map[OF ne])
  also have "\<dots> = n - 1" using a by (simp add: last_upt)
  finally show ?thesis .
qed

lemma block_index_bodies:
  "map fst (block_runs (concat (map (body_events cfg cb) (py_range n)))) =
     map (\<lambda>i. cb + int i) [0..<nat n]"
  unfolding block_runs_bodies by (simp add: py_range_def add.commute)

lemma block_index_plan:
  assumes "0 < checkpoint_frequency cfg" and "0 \<le> cb"
  shows "\<exists>N. map fst (block_runs (production_plan fdiv cfg cb)) = map (\<lambda>i. cb + int i) [0..<N] \<and> 0 < N"
proof -
  let ?quot = "fdiv (runtime cfg) (checkpoint_frequency cfg)"
  let ?frac = "if ?quot < 1 then 1 else ?quot"
  let ?cfg' = "if ?quot < 1 then cfg\<lparr>checkpoint_frequency := runtime cfg\<rparr> else cfg"
  let ?nb = "py_int ?frac"
  let ?rem = "?frac - of_int ?nb"
  have nb: "1 \<le> ?nb" by (rule py_int_ge_one) simp
  have bi: "body_index cb (last (py_range ?nb)) + 1 = cb + int (nat ?nb)"
    using nb assms(2) by (simp add: last_py_range body_index_def)
  have plan: "production_plan fdiv cfg cb =
      concat (map (body_events ?cfg' cb) (py_range ?nb)) @
      (if ?rem > 0 then remainder_events ?cfg' (cb + int (nat ?nb)) ?rem else [])"
    unfolding bi[symmetric] by (simp add: production_plan_def Let_def)
  have "map fst (block_runs (production_plan fdiv cfg cb)) =
      map (\<lambda>i. cb + int i) [0..<nat ?nb] @ (if ?rem > 0 then [cb + int (nat ?nb)] else [])"
    unfolding plan by (simp add: block_runs_append block_index_bodies)
  also have "\<dots> = map (\<lambda>i. cb + int i) [0..<nat ?nb + (if ?rem > 0 then 1 else 0)]"
    by simp
  finally have "map fst (block_runs (production_plan fdiv cfg cb)) =
      map (\<lambda>i. cb + int i) [0..<nat ?nb + (if ?rem > 0 then 1 else 0)]" .
  moreover have "0 < nat ?nb + (if ?rem > 0 then 1 else 0)" using nb by simp
  ultimately show ?thesis by blast
qed

lemma block_runs_production:
  assumes "0 < checkpoint_frequency (config_of s)" and "0 \<le> current_block s"
  shows "map fst (block_runs (trace (snd (production fdiv w s)))) =
     map fst (block_runs (trace s)) @
     map (\<lambda>i. current_block s + int i)
       [0..<length (block_runs (trace (snd (production fdiv w s)))) - length (block_runs (trace s))]"
proof -
  obtain N where N: "map fst (block_runs (production_plan fdiv (config_of s) (current_block s))) =
      map (\<lambda>i. current_block s + int i) [0..<N]"
    using block_index_plan[OF assms] by blast
  obtain p where p: "trace (snd (production fdiv w s)) = trace s @ p"
      "prefix p (production_plan fdiv (config_of s) (current_block s))"
    using emits_prefix[OF emits_production[OF assms(1), of fdiv w]] by auto
  have "prefix (map fst (block_runs p)) (map (\<lambda>i. current_block s + int i) [0..<N])"
    using prefix_block_runs[OF p(2)] N by (metis map_mono_prefix)
  then have "map fst (block_runs p) = map (\<lambda>i. current_block s + int i) [0..<length (map fst (block_runs p))]"
    by (rule prefix_map_upt)
  then show ?thesis by (simp add: p(1) block_runs_append)
qed

lemma block_runs_production_calm:
  assumes "0 < checkpoint_frequency (config_of s)" and "0 \<le> current_block s"
  shows "length (block_runs (trace s)) < length (block_runs (trace (snd (production fdiv calm s))))"
proof -
  obtain N where N: "map fst (block_runs (production_plan fdiv (config_of s) (current_block s))) =
      map (\<lambda>i. current_block s + int i) [0..<N]" "0 < N"
    using block_index_plan[OF assms] by blast
  have "trace (snd (production fdiv calm s)) = trace s @ production_plan fdiv (config_of s) (current_block s)"
    by (rule emits_None[OF emits_production[OF assms(1)] production_calm[OF assms(1)]])
  then have "length (block_runs (trace (snd (production fdiv calm s)))) =
      length (block_runs (trace s)) + length (map fst (block_runs (production_plan fdiv (config_of s) (current_block s))))"
    by (simp add: block_runs_append)
  with N show ?thesis by simp
qed

lemma Dynamics_init_restart_example:
  "Dynamics_init [[0.5]] True 2 0 [0] (Some 0) (example_config\<lparr>restart := True\<rparr>) 0.001 None True =
     (Inr \<lparr>config_of = example_config\<lparr>restart := True, runtime := 3\<rparr>, current_block = 2,
           lambda_val = 0, lambda_array = [0], lambda_energy = [0, 0.5], increment = 0.001,
           device = None, has_space = True, lambda_grad = None, loop_x = None, trace = []\<rparr>,
      example_config\<lparr>restart := True, runtime := 3\<rparr>, [[0.5], [0.5, 0], [0, 0.5]])"
  by (simp add: Dynamics_init_def restart_setup_def example_config_def energy_lambdas_Some
        py_int_def py_round_def round_half_even_def)



lemma block_runs_plan:
  assumes "0 \<le> cb"
  shows "block_runs (production_plan fdiv cfg cb) =
     (let q = fdiv (runtime cfg) (checkpoint_frequency cfg)
      in if q < 1 then [(cb, runtime cfg)]
         else map (\<lambda>i. (cb + int i, checkpoint_frequency cfg)) [0..<nat \<lfloor>q\<rfloor>] @
              (if 0 < q - of_int \<lfloor>q\<rfloor> then [(cb + \<lfloor>q\<rfloor>, q - of_int \<lfloor>q\<rfloor>)] else []))"
proof (cases "fdiv (runtime cfg) (checkpoint_frequency cfg) < 1")
  case True
  then show ?thesis
    by (simp add: production_plan_def Let_def block_runs_append block_runs_bodies py_int_def
          py_range_def)
next
  case False
  let ?q = "fdiv (runtime cfg) (checkpoint_frequency cfg)"
  from False have q1: "1 \<le> ?q" by simp
  then have pi: "py_int ?q = \<lfloor>?q\<rfloor>" by (simp add: py_int_def)
  have nb: "1 \<le> \<lfloor>?q\<rfloor>" using q1 by (simp add: le_floor_iff)
  have bi: "body_index cb (last (py_range \<lfloor>?q\<rfloor>)) + 1 = cb + \<lfloor>?q\<rfloor>"
  proof -
    have "last (py_range \<lfloor>?q\<rfloor>) = \<lfloor>?q\<rfloor> - 1" by (rule last_py_range[OF nb])
    moreover have "body_index cb (\<lfloor>?q\<rfloor> - 1) = \<lfloor>?q\<rfloor> - 1 + cb"
      unfolding body_index_def using nb assms by arith
    ultimately show ?thesis by simp
  qed
  have m: "map (\<lambda>i. (i + cb, checkpoint_frequency cfg)) (py_range \<lfloor>?q\<rfloor>) =
      map (\<lambda>i. (cb + int i, checkpoint_frequency cfg)) [0..<nat \<lfloor>?q\<rfloor>]"
    by (simp add: py_range_def add.commute)
  show ?thesis using False
    by (simp add: production_plan_def Let_def block_runs_append block_runs_bodies pi bi m)
qed

lemma block_runs_production_calm_eq:
  assumes "0 < checkpoint_frequency (config_of s)" and "0 \<le> current_block s"
  shows "block_runs (trace (snd (production fdiv calm s))) =
     block_runs (trace s) @ block_runs (production_plan fdiv (config_of s) (current_block s))"
proof -
  have "trace (snd (production fdiv calm s)) =
      trace s @ production_plan fdiv (config_of s) (current_block s)"
    by (rule emits_None[OF emits_production[OF assms(1)] production_calm[OF assms(1)]])
  then show ?thesis by (simp add: block_runs_append)
qed


subsection \<open>Assignments to the configuration\<close>

lemma Dynamics_init_config:
  "fst (snd (Dynamics_init h p t lam arr ref cfg incr dev space)) =
     (if p \<and> restart cfg then cfg\<lparr>runtime := runtime cfg - t\<rparr> else cfg)"
  by (cases ref)
    (auto simp: Dynamics_init_def restart_setup_def Let_def energy_lambdas_Some energy_lambdas_None
          split: prod.splits sum.splits)

lemma but_frequency_call [simp]: "but_frequency c0 (snd (call w ev s)) = but_frequency c0 s"
  by (simp add: but_frequency_def call_def)

lemma but_frequency_minimisation [simp]:
  "but_frequency c0 (snd (minimisation w lm con pcon s)) = but_frequency c0 s"
  by (cases lm) (simp_all add: minimisation_def)

lemma but_frequency_equilibration [simp]:
  "but_frequency c0 (snd (equilibration w s)) = but_frequency c0 s"
  unfolding equilibration_def by (rule seq_keeps) auto

lemma but_frequency_prepare [simp]:
  "but_frequency c0 (snd (prepare w lm ir s)) = but_frequency c0 s"
proof -
  have inner: "\<And>b t. but_frequency c0
      (snd (seq [equilibration w, call w Set_time_zero, only_if b m] t)) = but_frequency c0 t"
    if "\<And>u. but_frequency c0 (snd (m u)) = but_frequency c0 u" for m
    by (rule seq_keeps) (use that in \<open>auto intro!: only_if_keeps\<close>)
  show ?thesis
    unfolding prepare_def Let_def
    by (rule seq_keeps) (auto intro!: only_if_keeps inner simp del: seq.simps)
qed

lemma but_frequency_set_lambda_grad [simp]:
  "but_frequency c0 (snd (set_lambda_grad s)) = but_frequency c0 s"
  by (simp add: set_lambda_grad_def but_frequency_def split: sum.splits)

lemma but_frequency_finalise [simp]:
  "but_frequency c0 (snd (finalise w s)) = but_frequency c0 s"
  unfolding finalise_def by (rule seq_keeps) (auto intro!: only_if_keeps)

lemma but_frequency_production [simp]:
  "but_frequency c0 (snd (production fdiv w s)) = but_frequency c0 s"
  by (simp add: but_frequency_def config_of_production)

lemma but_frequency_Dynamics_run [simp]:
  "but_frequency c0 (snd (Dynamics_run fdiv w lm ir s)) = but_frequency c0 s"
  unfolding Dynamics_run_def by (rule seq_keeps) auto

lemma but_frequency_attempt [simp]:
  "but_frequency c0 (snd (attempt fdiv w lm s)) = but_frequency c0 s"
  unfolding attempt_def get_timing_def by (rule and_then_keeps) simp_all

lemma but_frequency_run_window_run:
  "but_frequency c0 (sim_after (run_window_run fdiv w lam s)) = but_frequency c0 s"
proof -
  have a: "\<And>lm s0 e s1. attempt fdiv w lm s0 = (e, s1) \<Longrightarrow>
      but_frequency c0 s1 = but_frequency c0 s0"
    using but_frequency_attempt by (metis snd_conv)
  show ?thesis
    by (auto simp: run_window_run_def dest!: a split: prod.splits option.splits)
qed

lemma but_frequency_run_sim:
  "(r_config (snd (run_sim fdiv w lam (r\<lparr>sim := Some (s\<lparr>config_of := r_config r\<rparr>)\<rparr>))))
      \<lparr>checkpoint_frequency := checkpoint_frequency (r_config r)\<rparr> = r_config r"
  using but_frequency_run_window_run
          [of "checkpoint_frequency (r_config r)" fdiv w lam "s\<lparr>config_of := r_config r\<rparr>"]
  by (simp add: run_sim_def Let_def but_frequency_def)

lemma pool_fields:
  "r_config (update_gpu_pool g r) = r_config r"
  "r_config (remove_gpu_from_pool g r) = r_config r"
  by (simp_all add: update_gpu_pool_def remove_gpu_from_pool_def)

lemma config_Runner_run_window [simp]:
  "r_config (snd (Runner_run_window fdiv w lam r)) = r_config r"
  by (simp add: Runner_run_window_def Let_def initialise_simulation_raises acquire_gpu_def
        remove_gpu_from_pool_def split: option.splits list.splits)

lemma config_submit_all [simp]: "r_config (snd (submit_all fdiv w lams jobs r)) = r_config r"
proof (induction lams arbitrary: jobs r)
  case Nil show ?case by simp
next
  case (Cons lam lams)
  show ?case
  proof (cases "Runner_run_window fdiv w lam r")
    case (Pair out r')
    show ?thesis using Pair Cons[of "Some out" "r\<lparr>gpu_pool := gpu_pool r', logged := logged r'\<rparr>"]
      by simp
  qed
qed

lemma config_run_sequential [simp]:
  "r_config (snd (run_sequential fdiv w lams res r)) = r_config r"
proof (induction lams arbitrary: res r)
  case Nil show ?case by simp
next
  case (Cons lam lams)
  show ?case
  proof (cases "Runner_run_window fdiv w lam r")
    case (Pair out r')
    then have r': "r_config r' = r_config r"
      using config_Runner_run_window[of fdiv w lam r] by simp
    show ?thesis using Pair r' Cons by (cases out) simp_all
  qed
qed

lemma but_extra_args_parallel_setup [simp]:
  "but_extra_args a0 (snd (parallel_setup env n r)) = but_extra_args a0 r"
  by (auto simp: parallel_setup_def create_shared_resources_def get_cuda_devices_def Let_def
        set_extra_args_def but_extra_args_def split: option.splits sum.splits)

lemma but_extra_args_Runner_run:
  "but_extra_args a0 (snd (Runner_run fdiv w env r)) = but_extra_args a0 r"
proof (cases "num_lambda (r_config r)")
  case None
  then show ?thesis by (simp add: Runner_run_def)
next
  case (Some n)
  show ?thesis
  proof (cases "run_parallel (r_config r)")
    case True
    obtain e r1 where ps: "parallel_setup env n r = (e, r1)" by (cases "parallel_setup env n r") auto
    then have b1: "but_extra_args a0 r1 = but_extra_args a0 r"
      using but_extra_args_parallel_setup[of a0 env n r] by simp
    obtain j r2 where sa: "submit_all fdiv w (lambda_values r1) None r1 = (j, r2)"
      by (cases "submit_all fdiv w (lambda_values r1) None r1") auto
    then have "r_config r2 = r_config r1"
      using config_submit_all[of fdiv w "lambda_values r1" None r1] by simp
    then have b2: "but_extra_args a0 r2 = but_extra_args a0 r" using b1 by (simp add: but_extra_args_def)
    then have b3: "\<And>m. but_extra_args a0 (log_line m r2) = but_extra_args a0 r"
      by (simp add: but_extra_args_def)
    show ?thesis using Some True ps sa b1 b2 b3
      by (auto simp: Runner_run_def split: option.splits sum.splits)
  next
    case False
    let ?r1 = "if platform (r_config r) = ''cpu''
                then set_extra_args [(''threads'', max_threads (r_config r))] r else r"
    have b1: "but_extra_args a0 ?r1 = but_extra_args a0 r"
      by (simp add: set_extra_args_def but_extra_args_def)
    show ?thesis
    proof (cases "lambda_grid n")
      case (Inl e)
      with Some False b1 show ?thesis by (simp add: Runner_run_def Let_def)
    next
      case (Inr grid)
      have "r_config (snd (run_sequential fdiv w grid [] (?r1\<lparr>lambda_values := grid\<rparr>))) = r_config ?r1"
        by simp
      then have "but_extra_args a0 (snd (run_sequential fdiv w grid [] (?r1\<lparr>lambda_values := grid\<rparr>))) = but_extra_args a0 r"
        using b1 by (simp add: but_extra_args_def)
      with Some False Inr show ?thesis by (simp add: Runner_run_def Let_def)
    qed
  qed
qed

text \<open>
  C9 (as amended). What each operation does to the configuration it was given. The
  constructor of a session, when it gets past the check for perturbable molecules on a
  restart, sets \<^verbatim>\<open>runtime\<close> to the runtime minus the persisted time, and otherwise
  leaves the configuration as it was. The production run sets
  \<^verbatim>\<open>checkpoint_frequency\<close> to the runtime when the frequency is positive and the
  float quotient of runtime and frequency is below 1, and otherwise leaves the
  configuration as it was. \<^verbatim>\<open>Dynamics._run\<close> as a whole, the nested
  \<^verbatim>\<open>_run\<close> of \<^verbatim>\<open>run_window\<close>, and its call on the simulation that shares
  the configuration of the Runner change at most \<^verbatim>\<open>checkpoint_frequency\<close>. The
  updates of the device pool, \<^verbatim>\<open>_initialise_simulation\<close> and
  \<^verbatim>\<open>run_window\<close> leave the configuration as it was. \<^verbatim>\<open>Runner.run\<close> changes
  at most \<^verbatim>\<open>extra_args\<close>. \<^verbatim>\<open>_set_lambda_schedule\<close> sets
  \<^verbatim>\<open>lambda_schedule\<close> and nothing else.
\<close>

theorem configuration_assignments:
  "fst (snd (Dynamics_init h p t lam arr ref cfg incr dev space)) =
     (if p \<and> restart cfg then cfg\<lparr>runtime := runtime cfg - t\<rparr> else cfg) \<and>
   config_of (snd (production fdiv w s)) =
     (if 0 < checkpoint_frequency (config_of s) \<and>
         fdiv (runtime (config_of s)) (checkpoint_frequency (config_of s)) < 1
      then (config_of s)\<lparr>checkpoint_frequency := runtime (config_of s)\<rparr> else config_of s) \<and>
   (config_of (snd (Dynamics_run fdiv w lm ir s)))
       \<lparr>checkpoint_frequency := checkpoint_frequency (config_of s)\<rparr> = config_of s \<and>
   (config_of (sim_after (run_window_run fdiv w lam s)))
       \<lparr>checkpoint_frequency := checkpoint_frequency (config_of s)\<rparr> = config_of s \<and>
   (r_config (snd (run_sim fdiv w lam (r\<lparr>sim := Some (s\<lparr>config_of := r_config r\<rparr>)\<rparr>))))
       \<lparr>checkpoint_frequency := checkpoint_frequency (r_config r)\<rparr> = r_config r \<and>
   r_config (update_gpu_pool g r) = r_config r \<and>
   r_config (remove_gpu_from_pool g r) = r_config r \<and>
   r_config (snd (initialise_simulation lam dev r)) = r_config r \<and>
   r_config (snd (Runner_run_window fdiv w lam r)) = r_config r \<and>
   (r_config (snd (Runner_run fdiv w env r)))\<lparr>extra_args := extra_args (r_config r)\<rparr> = r_config r \<and>
   r_config (set_lambda_schedule schedule r) = (r_config r)\<lparr>lambda_schedule := schedule\<rparr>"
  using but_frequency_Dynamics_run[of "checkpoint_frequency (config_of s)" fdiv w lm ir s]
    but_frequency_run_window_run[of "checkpoint_frequency (config_of s)" fdiv w lam s]
    but_extra_args_Runner_run[of "extra_args (r_config r)" fdiv w env r]
    but_frequency_run_sim[of r fdiv w lam s]
  by (simp add: Dynamics_init_config config_of_production but_frequency_def but_extra_args_def
        pool_fields initialise_simulation_raises set_lambda_schedule_def)

text \<open>
  C9 as stated fails: constructing a session for a restart at persisted time 2 with a
  configured runtime of 5 leaves the configuration with a runtime of 3.
\<close>

theorem restart_assigns_runtime:
  "runtime (fst (snd (Dynamics_init [[0.5]] True 2 0 [0] (Some 0)
      (example_config\<lparr>restart := True\<rparr>) 0.001 None True))) = 3 \<and>
   runtime (example_config\<lparr>restart := True\<rparr>) = 5"
proof -
  have "runtime (fst (snd (Dynamics_init [[0.5]] True 2 0 [0] (Some 0)
      (example_config\<lparr>restart := True\<rparr>) 0.001 None True))) =
      runtime (example_config\<lparr>restart := True, runtime := 3\<rparr>)"
    by (subst Dynamics_init_restart_example) simp
  then show ?thesis by (simp add: example_config_def)
qed

subsection \<open>The retry of a window\<close>

text \<open>Every statement of a session only appends to the trace.\<close>

lemma grows_call: "prefix (trace s) (trace (snd (call w ev s)))"
  by (simp add: call_def)

lemma grows_and_then:
  assumes "\<And>s. prefix (trace s) (trace (snd (f s)))" and "\<And>s. prefix (trace s) (trace (snd (g s)))"
  shows "prefix (trace s) (trace (snd (and_then f g s)))"
proof (cases "f s")
  case (Pair e s')
  have a: "prefix (trace s) (trace s')" using assms(1)[of s] Pair by simp
  show ?thesis
  proof (cases e)
    case None
    then show ?thesis using Pair a assms(2)[of s'] by (auto simp: and_then_def)
  next
    case (Some ex)
    then show ?thesis using Pair a by (simp add: and_then_def)
  qed
qed

lemma grows_only_if:
  assumes "\<And>s. prefix (trace s) (trace (snd (f s)))"
  shows "prefix (trace s) (trace (snd (only_if b f s)))"
  using assms by (simp add: only_if_def skip_def)

lemma grows_seq:
  assumes "\<And>f s. f \<in> set fs \<Longrightarrow> prefix (trace s) (trace (snd (f s)))"
  shows "prefix (trace s) (trace (snd (seq fs s)))"
  using assms
proof (induction fs arbitrary: s)
  case Nil
  show ?case by (simp add: skip_def)
next
  case (Cons f fs)
  show ?case
    unfolding seq.simps
    by (rule grows_and_then) (use Cons in auto)
qed

lemma grows_minimisation: "prefix (trace s) (trace (snd (minimisation w lm con pcon s)))"
  by (cases lm) (simp_all add: minimisation_def grows_call)

lemma grows_equilibration: "prefix (trace s) (trace (snd (equilibration w s)))"
  unfolding equilibration_def by (rule grows_seq) (auto simp: grows_call)

lemma grows_prepare: "prefix (trace s) (trace (snd (prepare w lm ir s)))"
proof -
  have inner: "\<And>b t. prefix (trace t)
      (trace (snd (seq [equilibration w, call w Set_time_zero, only_if b m] t)))"
    if "\<And>u. prefix (trace u) (trace (snd (m u)))" for m
    by (rule grows_seq) (use that in \<open>auto intro!: grows_only_if grows_call grows_equilibration\<close>)
  show ?thesis
    unfolding prepare_def Let_def
    by (rule grows_seq)
      (auto intro!: grows_only_if inner grows_minimisation simp del: seq.simps)
qed

lemma grows_set_lambda_grad: "prefix (trace s) (trace (snd (set_lambda_grad s)))"
  by (simp add: set_lambda_grad_def split: sum.splits)

lemma grows_finalise: "prefix (trace s) (trace (snd (finalise w s)))"
  unfolding finalise_def by (rule grows_seq) (auto intro!: grows_only_if grows_call)

lemma grows_production: "prefix (trace s) (trace (snd (production fdiv w s)))"
proof (cases "0 < checkpoint_frequency (config_of s)")
  case True
  from emits_prefix[OF emits_production[OF True, of fdiv w]] show ?thesis by auto
next
  case False
  have "prefix (trace s)
      (trace (snd (seq [call w (Dyn_run_whole (checkpoint_frequency (config_of s))), call w Commit] s)))"
    by (rule grows_seq) (auto simp: grows_call)
  with False show ?thesis by (simp add: production_def Let_def)
qed

lemma grows_rest:
  "prefix (trace s)
     (trace (snd (seq [call w (Setup_dynamics False), set_lambda_grad, production fdiv w, finalise w] s)))"
  by (rule grows_seq)
    (auto simp: grows_call grows_set_lambda_grad grows_production grows_finalise)

lemma and_then_cong_at: "f s = f' s \<Longrightarrow> and_then f g s = and_then f' g s"
  by (simp add: and_then_def)

lemma trace_call_first:
  "trace (snd (and_then (call w ev) h s)) =
     (if w (trace s) ev = None then trace (snd (h (s\<lparr>trace := trace s @ [ev]\<rparr>)))
      else trace s @ [ev])"
  by (auto simp: and_then_def call_def)

lemma prepare_minimises_first:
  assumes "minimise cfg" and "config_of s = cfg"
  shows "\<exists>after. prepare w (Some l) False s =
     and_then (call w (Minimisation l
         (if equilibration_time cfg > 0 then ''none'' else constraint cfg)
         (if equilibration_time cfg > 0 then ''none'' else perturbable_constraint cfg))) after s \<and>
     (\<forall>t. prefix (trace t) (trace (snd (after t))))"
proof -
  let ?after = "and_then (only_if (equilibration_time cfg > 0)
                (seq [equilibration w,
                      call w Set_time_zero,
                      only_if (timestep cfg > equilibration_timestep cfg \<or>
                            (\<not> equilibration_constraints cfg \<and> perturbable_constraint cfg \<noteq> ''none''))
                        (minimisation w (Some (lambda_val s)) (constraint cfg) (perturbable_constraint cfg))])) skip"
  have m: "\<And>con pcon. minimisation w (Some l) con pcon = call w (Minimisation l con pcon)"
    by (simp add: minimisation_def fun_eq_iff)
  have "prepare w (Some l) False s =
     and_then (call w (Minimisation l
         (if equilibration_time cfg > 0 then ''none'' else constraint cfg)
         (if equilibration_time cfg > 0 then ''none'' else perturbable_constraint cfg))) ?after s"
    using assms(1) unfolding prepare_def Let_def seq.simps m assms(2)
    by (simp add: only_if_def)
  moreover have "\<forall>t. prefix (trace t) (trace (snd (?after t)))"
    unfolding and_then_skip
    by (intro allI grows_only_if grows_seq)
      (auto simp: grows_call grows_equilibration grows_minimisation intro!: grows_only_if)
  ultimately show ?thesis by blast
qed

text \<open>
  A run of \<^verbatim>\<open>_run\<close> with minimisation configured starts with the topology and
  the minimisation at the lambda it was given.
\<close>

lemma Dynamics_run_starts:
  assumes "minimise (config_of s)" and g: "\<And>t. prefix (trace t) (trace (snd (g t)))"
  shows "take 2 (drop (length (trace s)) (trace (snd (and_then (Dynamics_run fdiv w (Some l) False) g s)))) =
     (if w (trace s) Save_topology = None
      then [Save_topology,
            Minimisation l
              (if equilibration_time (config_of s) > 0 then ''none'' else constraint (config_of s))
              (if equilibration_time (config_of s) > 0 then ''none''
               else perturbable_constraint (config_of s))]
      else [Save_topology])"
proof -
  let ?s1 = "s\<lparr>trace := trace s @ [Save_topology]\<rparr>"
  let ?con = "if equilibration_time (config_of s) > 0 then ''none'' else constraint (config_of s)"
  let ?pcon = "if equilibration_time (config_of s) > 0 then ''none''
               else perturbable_constraint (config_of s)"
  let ?rest = "and_then
      (seq [call w (Setup_dynamics False), set_lambda_grad, production fdiv w, finalise w]) g"
  have run: "and_then (Dynamics_run fdiv w (Some l) False) g =
      and_then (call w Save_topology) (and_then (prepare w (Some l) False) ?rest)"
    by (simp add: Dynamics_run_def and_then_assoc)
  have rest: "\<And>t. prefix (trace t) (trace (snd (?rest t)))"
    by (intro grows_and_then grows_rest g)
  have "config_of ?s1 = config_of s" by simp
  from prepare_minimises_first[OF assms(1) this, of w l]
  obtain after where after: "prepare w (Some l) False ?s1 =
      and_then (call w (Minimisation l ?con ?pcon)) after ?s1"
      "\<And>t. prefix (trace t) (trace (snd (after t)))"
    by blast
  have p: "and_then (prepare w (Some l) False) ?rest ?s1 =
      and_then (call w (Minimisation l ?con ?pcon)) (and_then after ?rest) ?s1"
    using and_then_cong_at[of "prepare w (Some l) False" ?s1
            "and_then (call w (Minimisation l ?con ?pcon)) after" ?rest] after(1)
    by (simp add: and_then_assoc)
  have tail: "\<And>t. prefix (trace t) (trace (snd (and_then after ?rest t)))"
    by (intro grows_and_then after(2) rest)
  let ?s2 = "?s1\<lparr>trace := trace ?s1 @ [Minimisation l ?con ?pcon]\<rparr>"
  from tail[of ?s2] obtain q where q: "trace (snd (and_then after ?rest ?s2)) = trace ?s2 @ q"
    by (auto simp: prefix_def)
  show ?thesis
    unfolding run trace_call_first p
    using q by simp
qed

lemma grows_get_timing: "prefix (trace s) (trace (snd (get_timing w s)))"
  by (simp add: get_timing_def grows_call)

lemma fields_but_frequency:
  assumes "but_frequency c0 s1 = but_frequency c0 s"
  shows "minimise (config_of s1) = minimise (config_of s)"
    "equilibration_time (config_of s1) = equilibration_time (config_of s)"
    "constraint (config_of s1) = constraint (config_of s)"
    "perturbable_constraint (config_of s1) = perturbable_constraint (config_of s)"
proof -
  have "minimise (but_frequency c0 s1) = minimise (but_frequency c0 s)"
    "equilibration_time (but_frequency c0 s1) = equilibration_time (but_frequency c0 s)"
    "constraint (but_frequency c0 s1) = constraint (but_frequency c0 s)"
    "perturbable_constraint (but_frequency c0 s1) = perturbable_constraint (but_frequency c0 s)"
    using assms by simp_all
  then show "minimise (config_of s1) = minimise (config_of s)"
    "equilibration_time (config_of s1) = equilibration_time (config_of s)"
    "constraint (config_of s1) = constraint (config_of s)"
    "perturbable_constraint (config_of s1) = perturbable_constraint (config_of s)"
    by (simp_all add: but_frequency_def)
qed

lemma attempts_run_window_run:
  "attempts (run_window_run fdiv w lam s) =
     (if minimise (config_of s) \<and> fst (attempt fdiv w None s) \<noteq> None then [None, Some 0]
      else [None])"
  by (auto simp: run_window_run_def split: prod.splits option.splits)


lemma first_attempt_example:
  "attempt double_div minimisation_fails_off_zero None (middle_session (example_config\<lparr>runtime := 1\<rparr>)) =
     (Some (ExternalError 1),
      (middle_session (example_config\<lparr>runtime := 1\<rparr>))
        \<lparr>trace := [Save_topology, Minimisation (1 / 2) ''h_bonds'' ''h_bonds'']\<rparr>)"
  by (simp add: attempt_def Dynamics_run_def and_then_def call_def prepare_def Let_def only_if_def
        minimisation_def middle_session_def example_config_def minimisation_fails_off_zero_def)

lemma double_div_one: "double_div 1 1 = 1"
  by (simp add: double_div_def round_double_def binade_def bits.simps round_half_even_def
        power_int_minus)

lemma retry_example:
  "fst (attempt double_div minimisation_fails_off_zero (Some 0)
      ((middle_session (example_config\<lparr>runtime := 1\<rparr>))
        \<lparr>trace := [Save_topology, Minimisation (1 / 2) ''h_bonds'' ''h_bonds'']\<rparr>)) = None"
  by (simp add: attempt_def Dynamics_run_def and_then_def call_def prepare_def Let_def only_if_def
        minimisation_def middle_session_def example_config_def minimisation_fails_off_zero_def
        set_lambda_grad_def generate_lam_vals_def production_def double_div_one py_int_def
        py_range_def block_body_def finalise_def get_timing_def skip_def)


lemma Dynamics_call_example:
  "fst (Dynamics_call [[0, 1]] True 0 0 [0, 1] (Given (Some 0))
         (example_config\<lparr>minimise := False, runtime := 1\<rparr>) 0.001 None True) =
     Inr (example_session (example_config\<lparr>minimise := False, runtime := 1\<rparr>) 0)"
  by (simp add: Dynamics_call_def Dynamics_init_def restart_setup_def example_config_def
        energy_lambdas_Some example_session_def)

lemma failing_attempt_example:
  "fst (attempt double_div dynamics_fails None
       (example_session (example_config\<lparr>minimise := False, runtime := 1\<rparr>) 0)) =
     Some (ExternalError 2)"
  by (simp add: attempt_def Dynamics_run_def and_then_def call_def prepare_def Let_def only_if_def
        example_session_def example_config_def dynamics_fails_def
        set_lambda_grad_def generate_lam_vals_def production_def double_div_one py_int_def
        py_range_def block_body_def skip_def)


subsection \<open>Further facts about dispatch\<close>

text \<open>
  In parallel dispatch with at least one window \<^verbatim>\<open>run\<close> returns a list whatever
  the windows do. With two devices and two windows, both windows raise in the
  constructor call: the list is empty and both devices are gone from the pool.
\<close>

lemma submit_all_Some: "\<exists>out. fst (submit_all fdiv w lams (Some j) r) = Some out"
  by (induction lams arbitrary: j r) (auto split: prod.splits)

lemma submit_all_nonempty:
  "lams \<noteq> [] \<Longrightarrow> \<exists>out. fst (submit_all fdiv w lams jobs r) = Some out"
  by (cases lams) (auto simp: submit_all_Some split: prod.splits)

lemma parallel_run_returns:
  assumes "num_lambda (r_config r) = Some n" and "run_parallel (r_config r)"
    and "parallel_setup env n r = (None, r1)" and "max_workers r1 = Some m" and "0 < m"
    and "lambda_values r1 \<noteq> []"
  shows "\<not> isl (fst (Runner_run fdiv w env r))"
proof -
  obtain out where "fst (submit_all fdiv w (lambda_values r1) None r1) = Some out"
    using submit_all_nonempty[OF assms(6)] by blast
  then obtain r2 where "submit_all fdiv w (lambda_values r1) None r1 = (Some out, r2)"
    by (cases "submit_all fdiv w (lambda_values r1) None r1") auto
  then show ?thesis
    using assms(1-5) by (cases out) (simp_all add: Runner_run_def)
qed

lemma parallel_run_at_two_devices:
  "fst (Runner_run fdiv w (Some [''0'', ''1''])
     (example_runner (example_config\<lparr>run_parallel := True, platform := ''cuda''\<rparr>))) = Inr [] \<and>
   gpu_pool (snd (Runner_run fdiv w (Some [''0'', ''1''])
     (example_runner (example_config\<lparr>run_parallel := True, platform := ''cuda''\<rparr>)))) = Some []"
  by (simp add: Runner_run_def parallel_setup_def create_shared_resources_def get_cuda_devices_def
        zero_cuda_devices_def Runner_run_window_def Let_def initialise_simulation_raises
        acquire_gpu_def remove_gpu_from_pool_def example_runner_def example_config_def
        set_extra_args_def)

end
